theory Spec2Isabelle
  imports Complex_Main "HOL-Library.Sublist"
begin

section \<open>Python values used by okx\_monitor.py\<close>

text \<open>
  A Python \<open>str\<close> is a sequence of Unicode code points; it is modelled as a list of
  natural numbers. \<open>lit\<close> turns an ASCII literal into such a list. The literals of the
  source that are not ASCII are written as their code points.
\<close>

type_synonym pystr = "nat list"

definition lit :: "string \<Rightarrow> pystr" where
  "lit s = map of_char s"

text \<open>The exceptions (all subclasses of \<open>Exception\<close>) that the program can meet.\<close>

datatype exn =
    HTTPError | URLError | OSError | JSONDecodeError | ValueError | TypeError
  | AttributeError | KeyError | IndexError | RuntimeError | OverflowError

text \<open>Sequencing of computations that may raise: the first exception wins.\<close>

definition andthen :: "exn + 'a \<Rightarrow> ('a \<Rightarrow> exn + 'b) \<Rightarrow> exn + 'b" where
  "andthen m f = (case m of Inl e \<Rightarrow> Inl e | Inr x \<Rightarrow> f x)"

text \<open>
  A Python float is a real number (every finite double is one, and both zeros are the
  real 0), an infinity or NaN. The program compares floats and tests them for zero,
  which this embedding does exactly; producing a float from text or from an int rounds,
  and is left to the runtime below.
\<close>

datatype pyfloat = NaN | NegInf | Fin real | PosInf

fun fl_less :: "pyfloat \<Rightarrow> pyfloat \<Rightarrow> bool" where
  "fl_less (Fin a) (Fin b) = (a < b)"
| "fl_less NegInf (Fin b) = True"
| "fl_less NegInf PosInf = True"
| "fl_less (Fin a) PosInf = True"
| "fl_less x y = False"

text \<open>
  What \<open>json.load\<close> returns: \<open>None\<close>, a bool, an int, a float, a str, a list or a
  dict with string keys.
\<close>

datatype json =
    JNull | JBool bool | JInt int | JFloat pyfloat | JStr pystr
  | JArr "json list" | JObj "(pystr \<times> json) list"

text \<open>
  The parts of the Python runtime that this development does not define: the case
  mappings, \<open>isdigit\<close> and \<open>int\<close> on text outside the plain range below, the
  rounding of text and of ints to floats, \<open>str\<close> of floats and containers, and
  \<open>time.strftime\<close> of the local time. Each function of the program that reaches one of them takes the
  runtime as its first argument, and every theorem holds for every runtime.
\<close>

record runtime =
  rt_upper :: "pystr \<Rightarrow> pystr"
  rt_lower :: "pystr \<Rightarrow> pystr"
  rt_isdigit :: "pystr \<Rightarrow> bool"
  rt_int_text :: "pystr \<Rightarrow> exn + int"
  rt_float_text :: "pystr \<Rightarrow> exn + pyfloat"
  rt_float_int :: "int \<Rightarrow> exn + pyfloat"
  rt_repr :: "json \<Rightarrow> pystr"
  rt_strftime :: "int \<Rightarrow> exn + pystr"

subsection \<open>Text\<close>

text \<open>
  Plain code points: ASCII, and the CJK unified ideographs U+4E00..U+9FFF, which have
  no case, are no digits and no white space. On text made of plain code points
  \<open>upper\<close>, \<open>lower\<close> and \<open>isdigit\<close> are defined here; on any other text they are
  the runtime's.
\<close>

definition plain :: "nat \<Rightarrow> bool" where
  "plain c = (c < 128 \<or> (19968 \<le> c \<and> c \<le> 40959))"

definition ascii_upper :: "nat \<Rightarrow> nat" where
  "ascii_upper c = (if 97 \<le> c \<and> c \<le> 122 then c - 32 else c)"

definition ascii_lower :: "nat \<Rightarrow> nat" where
  "ascii_lower c = (if 65 \<le> c \<and> c \<le> 90 then c + 32 else c)"

definition py_upper :: "runtime \<Rightarrow> pystr \<Rightarrow> pystr" where
  "py_upper rt s = (if list_all plain s then map ascii_upper s else rt_upper rt s)"

definition py_lower :: "runtime \<Rightarrow> pystr \<Rightarrow> pystr" where
  "py_lower rt s = (if list_all plain s then map ascii_lower s else rt_lower rt s)"

definition is_digit :: "nat \<Rightarrow> bool" where
  "is_digit c = (48 \<le> c \<and> c \<le> 57)"

definition py_isdigit :: "runtime \<Rightarrow> pystr \<Rightarrow> bool" where
  "py_isdigit rt s =
     (if list_all plain s then s \<noteq> [] \<and> list_all is_digit s else rt_isdigit rt s)"

text \<open>\<open>str.isspace\<close>: the white space that \<open>str.strip()\<close> removes.\<close>

definition py_isspace :: "nat \<Rightarrow> bool" where
  "py_isspace c =
     ((9 \<le> c \<and> c \<le> 13) \<or> (28 \<le> c \<and> c \<le> 32) \<or> c = 133 \<or> c = 160 \<or> c = 5760
      \<or> (8192 \<le> c \<and> c \<le> 8202) \<or> c = 8232 \<or> c = 8233 \<or> c = 8239 \<or> c = 8287
      \<or> c = 12288)"

definition py_strip :: "pystr \<Rightarrow> pystr" where
  "py_strip s = rev (dropWhile py_isspace (rev (dropWhile py_isspace s)))"

text \<open>\<open>s.split(d)\<close> for a separator of one code point: never the empty list.\<close>

fun split_on :: "nat \<Rightarrow> pystr \<Rightarrow> pystr list" where
  "split_on d [] = [[]]"
| "split_on d (c # cs) =
     (if c = d then [] # split_on d cs
      else (case split_on d cs of [] \<Rightarrow> [[c]] | p # ps \<Rightarrow> (c # p) # ps))"

definition py_endswith :: "pystr \<Rightarrow> pystr \<Rightarrow> bool" where
  "py_endswith s suf = (length suf \<le> length s \<and> drop (length s - length suf) s = suf)"

text \<open>\<open>s.replace(d, "")\<close> for a separator of one code point.\<close>

definition py_remove :: "nat \<Rightarrow> pystr \<Rightarrow> pystr" where
  "py_remove d s = filter (\<lambda>c. c \<noteq> d) s"

text \<open>\<open>str(n)\<close> of an int.\<close>

fun show_nat :: "nat \<Rightarrow> pystr" where
  "show_nat n = (if n < 10 then [48 + n] else show_nat (n div 10) @ [48 + n mod 10])"

declare show_nat.simps [simp del]

definition show_int :: "int \<Rightarrow> pystr" where
  "show_int i = (if i < 0 then 45 # show_nat (nat (- i)) else show_nat (nat i))"

text \<open>
  \<open>int(s)\<close> of a str, base 10: white space around, an optional sign, then digits
  with single underscores between them. It is defined here on ASCII text of at most
  4300 code points (the interpreter refuses longer digit strings); on any other text
  it is the runtime's.
\<close>

definition int_space :: "nat \<Rightarrow> bool" where
  "int_space c = ((9 \<le> c \<and> c \<le> 13) \<or> c = 32)"

fun digits_wf :: "pystr \<Rightarrow> bool" where
  "digits_wf [] = False"
| "digits_wf [c] = is_digit c"
| "digits_wf (c # d # cs) =
     (is_digit c \<and> (if d = 95 then digits_wf cs else digits_wf (d # cs)))"

definition digits_val :: "pystr \<Rightarrow> nat" where
  "digits_val ds = foldl (\<lambda>a c. 10 * a + (c - 48)) 0 (filter (\<lambda>c. c \<noteq> 95) ds)"

definition ascii_int :: "pystr \<Rightarrow> exn + int" where
  "ascii_int s =
     (let t = rev (dropWhile int_space (rev (dropWhile int_space s)));
          neg = (t \<noteq> [] \<and> hd t = 45);
          ds = (if t \<noteq> [] \<and> (hd t = 45 \<or> hd t = 43) then tl t else t)
      in if digits_wf ds
         then Inr (if neg then - int (digits_val ds) else int (digits_val ds))
         else Inl ValueError)"

definition py_int_text :: "runtime \<Rightarrow> pystr \<Rightarrow> exn + int" where
  "py_int_text rt s =
     (if list_all (\<lambda>c. c < 128) s \<and> length s \<le> 4300 then ascii_int s
      else rt_int_text rt s)"

subsection \<open>Builtins on parsed JSON\<close>

text \<open>\<open>bool(x)\<close>, also the test of \<open>if x\<close>, \<open>not x\<close> and \<open>x or y\<close>.\<close>

fun py_truthy :: "runtime \<Rightarrow> json \<Rightarrow> bool" where
  "py_truthy rt JNull = False"
| "py_truthy rt (JBool b) = b"
| "py_truthy rt (JInt n) = (n \<noteq> 0)"
| "py_truthy rt (JFloat x) = (x \<noteq> Fin 0)"
| "py_truthy rt (JStr s) = (s \<noteq> [])"
| "py_truthy rt (JArr xs) = (xs \<noteq> [])"
| "py_truthy rt (JObj kvs) = (kvs \<noteq> [])"

fun py_str :: "runtime \<Rightarrow> json \<Rightarrow> pystr" where
  "py_str rt (JStr s) = s"
| "py_str rt (JInt n) = show_int n"
| "py_str rt (JBool b) = (if b then lit ''True'' else lit ''False'')"
| "py_str rt JNull = lit ''None''"
| "py_str rt x = rt_repr rt x"

fun py_int :: "runtime \<Rightarrow> json \<Rightarrow> exn + int" where
  "py_int rt (JInt n) = Inr n"
| "py_int rt (JBool b) = Inr (if b then 1 else 0)"
| "py_int rt (JStr s) = py_int_text rt s"
| "py_int rt (JFloat x) =
     (case x of
        Fin r \<Rightarrow> Inr (if r \<ge> 0 then \<lfloor>r\<rfloor> else \<lceil>r\<rceil>)
      | NaN \<Rightarrow> Inl ValueError
      | _ \<Rightarrow> Inl OverflowError)"
| "py_int rt x = Inl TypeError"

fun py_float :: "runtime \<Rightarrow> json \<Rightarrow> exn + pyfloat" where
  "py_float rt (JFloat x) = Inr x"
| "py_float rt (JBool b) = Inr (Fin (if b then 1 else 0))"
| "py_float rt (JInt n) = rt_float_int rt n"
| "py_float rt (JStr s) = rt_float_text rt s"
| "py_float rt x = Inl TypeError"

text \<open>\<open>d.get(k, default)\<close>: only a dict has the method.\<close>

fun py_get :: "json \<Rightarrow> pystr \<Rightarrow> json \<Rightarrow> exn + json" where
  "py_get (JObj kvs) k dflt = Inr (case map_of kvs k of None \<Rightarrow> dflt | Some v \<Rightarrow> v)"
| "py_get x k dflt = Inl AttributeError"

fun py_len :: "json \<Rightarrow> exn + nat" where
  "py_len (JStr s) = Inr (length s)"
| "py_len (JArr xs) = Inr (length xs)"
| "py_len (JObj kvs) = Inr (length kvs)"
| "py_len x = Inl TypeError"

text \<open>\<open>r[i]\<close> for a literal index \<open>i \<ge> 0\<close>.\<close>

fun py_index :: "json \<Rightarrow> nat \<Rightarrow> exn + json" where
  "py_index (JArr xs) i = (if i < length xs then Inr (xs ! i) else Inl IndexError)"
| "py_index (JStr s) i = (if i < length s then Inr (JStr [s ! i]) else Inl IndexError)"
| "py_index (JObj kvs) i = Inl KeyError"
| "py_index x i = Inl TypeError"

text \<open>The elements a \<open>for\<close> loop visits.\<close>

fun py_iter :: "json \<Rightarrow> exn + json list" where
  "py_iter (JArr xs) = Inr xs"
| "py_iter (JStr s) = Inr (map (\<lambda>c. JStr [c]) s)"
| "py_iter (JObj kvs) = Inr (map (\<lambda>kv. JStr (fst kv)) kvs)"
| "py_iter x = Inl TypeError"

section \<open>Normalisation of the watcher's fields\<close>

text \<open>\<open>normalize_bar\<close> (lines 34-72).\<close>

definition bar_mapping :: "(pystr \<times> pystr) list" where
  "bar_mapping =
     [(lit ''1m'', lit ''1m''), (lit ''1min'', lit ''1m''), (lit ''1'' @ [20998, 38047], lit ''1m''),
      (lit ''3m'', lit ''3m''), (lit ''3min'', lit ''3m''), (lit ''3'' @ [20998, 38047], lit ''3m''),
      (lit ''5m'', lit ''5m''), (lit ''5min'', lit ''5m''), (lit ''5'' @ [20998, 38047], lit ''5m''),
      (lit ''15m'', lit ''15m''), (lit ''15min'', lit ''15m''), (lit ''15'' @ [20998, 38047], lit ''15m''),
      (lit ''30m'', lit ''30m''), (lit ''30min'', lit ''30m''), (lit ''30'' @ [20998, 38047], lit ''30m''),
      (lit ''1h'', lit ''1H''), (lit ''1'' @ [23567, 26102], lit ''1H''),
      (lit ''2h'', lit ''2H''), (lit ''2'' @ [23567, 26102], lit ''2H''),
      (lit ''4h'', lit ''4H''), (lit ''4'' @ [23567, 26102], lit ''4H''),
      (lit ''6h'', lit ''6H''), (lit ''6'' @ [23567, 26102], lit ''6H''),
      (lit ''12h'', lit ''12H''), (lit ''12'' @ [23567, 26102], lit ''12H''),
      (lit ''1d'', lit ''1D''), ([26085, 32447], lit ''1D''), (lit ''1'' @ [22825], lit ''1D''),
      (lit ''1w'', lit ''1W''), ([21608, 32447], lit ''1W''),
      (lit ''1mth'', lit ''1M''), (lit ''1'' @ [26376], lit ''1M''),
      (lit ''1q'', lit ''3M''), ([23395, 24230], lit ''3M'')]"

definition normalize_bar :: "runtime \<Rightarrow> pystr \<Rightarrow> pystr" where
  "normalize_bar rt bar =
     (let b = py_lower rt (py_strip bar)
      in case map_of bar_mapping b of None \<Rightarrow> bar | Some v \<Rightarrow> v)"

text \<open>\<open>normalize_contract_type\<close> (lines 75-79); the second literal is U+6C38 U+7EED.\<close>

definition normalize_contract_type :: "runtime \<Rightarrow> pystr \<Rightarrow> pystr" where
  "normalize_contract_type rt t =
     (let s = py_upper rt (py_strip t)
      in if s = lit ''SWAP'' \<or> s = [27704, 32493] then lit ''SWAP'' else s)"

text \<open>
  \<open>pair_to_inst_id\<close> (lines 82-106). \<open>split_pair\<close> is lines 85-101: the base and the
  quote found in the upper-cased, stripped pair, both empty when none is found.
\<close>

definition split_pair :: "pystr \<Rightarrow> pystr \<times> pystr" where
  "split_pair pair =
     (if 45 \<in> set pair then
        (let parts = filter (\<lambda>p. p \<noteq> []) (split_on 45 pair)
         in if length parts \<ge> 2 then (parts ! 0, parts ! 1) else ([], []))
      else if 47 \<in> set pair then
        (let parts = filter (\<lambda>p. p \<noteq> []) (split_on 47 pair)
         in if length parts \<ge> 2 then (parts ! 0, parts ! 1) else ([], []))
      else if py_endswith pair (lit ''USDT'') then (take (length pair - 4) pair, lit ''USDT'')
      else if py_endswith pair (lit ''USD'') then (take (length pair - 3) pair, lit ''USD'')
      else ([], []))"

definition pair_to_inst_id :: "runtime \<Rightarrow> pystr \<Rightarrow> pystr \<Rightarrow> exn + pystr" where
  "pair_to_inst_id rt pair0 contract_type0 =
     (let pair = py_strip (py_upper rt pair0);
          contract_type = normalize_contract_type rt contract_type0;
          bq = split_pair pair
      in if fst bq = [] \<or> snd bq = [] then Inl ValueError
         else Inr (py_remove 47 (py_remove 45 (fst bq)) @ [45] @ snd bq @ [45] @ contract_type))"

text \<open>
  A pair that cannot be decomposed into base and quote, said without the code: with a
  hyphen in it, fewer than two non-empty parts between hyphens; else with a slash in it,
  fewer than two non-empty parts between slashes; else neither a non-empty base before
  \<open>USDT\<close> nor a non-empty base before \<open>USD\<close>.
\<close>

definition undecomposable :: "pystr \<Rightarrow> bool" where
  "undecomposable p =
     (if 45 \<in> set p then length (filter (\<lambda>x. x \<noteq> []) (split_on 45 p)) < 2
      else if 47 \<in> set p then length (filter (\<lambda>x. x \<noteq> []) (split_on 47 p)) < 2
      else \<not> (\<exists>b. b \<noteq> [] \<and> (p = b @ lit ''USDT'' \<or> p = b @ lit ''USD'')))"

section \<open>Candles and the reversal patterns\<close>

text \<open>The dict that \<open>fetch_closed_candles\<close> builds for one row (lines 156-163).\<close>

record candle =
  k_ts :: int
  k_o :: pyfloat
  k_h :: pyfloat
  k_l :: pyfloat
  k_c :: pyfloat
  k_confirm :: int

text \<open>
  \<open>classify_candle\<close> (lines 169-170) returns one of three one-character strings:
  U+9633 (bullish), U+9634 (bearish), U+5341 (neither).
\<close>

definition bull :: pystr where "bull = [38451]"
definition bear :: pystr where "bear = [38452]"
definition doji :: pystr where "doji = [21313]"

definition classify_candle :: "candle \<Rightarrow> pystr" where
  "classify_candle x =
     (if fl_less (k_o x) (k_c x) then bull
      else if fl_less (k_c x) (k_o x) then bear
      else doji)"

text \<open>The two signal texts of \<open>pattern_signal\<close> (lines 178 and 180).\<close>

definition bullish_reversal :: pystr where
  "bullish_reversal =
     [21487, 33021, 36208, 24378, 65292, 25321, 26426, 20570, 22810, 65281, 65281, 65281]"

definition bearish_reversal :: pystr where
  "bearish_reversal =
     [21487, 33021, 36208, 24369, 65292, 25321, 26426, 20570, 31354, 65281, 65281, 65281]"

definition pattern_signal :: "candle list \<Rightarrow> pystr option" where
  "pattern_signal last3 =
     (if length last3 < 3 then None
      else
        (let p = [classify_candle (last3 ! 0), classify_candle (last3 ! 1),
                  classify_candle (last3 ! 2)]
         in if p = [bear, bear, bull] then Some bullish_reversal
            else if p = [bull, bull, bear] then Some bearish_reversal
            else None))"

section \<open>Time windows\<close>

text \<open>What \<open>datetime.now()\<close> gives: the weekday (Monday is 0), the hour, the minute.\<close>

record pynow =
  weekday :: nat
  hour :: nat
  minute :: nat

text \<open>\<open>_time_to_minutes\<close> (lines 212-218).\<close>

definition time_to_minutes :: "runtime \<Rightarrow> pystr \<Rightarrow> exn + int" where
  "time_to_minutes rt s =
     (let parts = split_on 58 (py_strip s)
      in if length parts \<noteq> 2 then Inr (- 1)
         else andthen (py_int_text rt (parts ! 0)) (\<lambda>h.
              andthen (py_int_text rt (parts ! 1)) (\<lambda>m. Inr (h * 60 + m))))"

text \<open>\<open>_dow_to_name\<close> (lines 221-223).\<close>

definition dow_names :: "pystr list" where
  "dow_names = [lit ''Mon'', lit ''Tue'', lit ''Wed'', lit ''Thu'', lit ''Fri'', lit ''Sat'',
                lit ''Sun'']"

definition dow_to_name :: "nat \<Rightarrow> exn + pystr" where
  "dow_to_name i = (if i < length dow_names then Inr (dow_names ! i) else Inl IndexError)"

text \<open>
  One turn of the loop of \<open>now_in_windows\<close> (lines 233-243): \<open>Inr True\<close> when the
  function returns \<open>True\<close> at this window, \<open>Inr False\<close> when the loop goes on.
\<close>

definition is_list :: "json \<Rightarrow> bool" where
  "is_list x = (case x of JArr xs \<Rightarrow> True | _ \<Rightarrow> False)"

definition elems :: "json \<Rightarrow> json list" where
  "elems x = (case x of JArr xs \<Rightarrow> xs | _ \<Rightarrow> [])"

definition window_turn :: "runtime \<Rightarrow> pystr \<Rightarrow> int \<Rightarrow> json \<Rightarrow> exn + bool" where
  "window_turn rt dow minutes w =
     andthen (py_get w (lit ''days'') (JStr (lit ''*''))) (\<lambda>days.
     andthen (py_get w (lit ''start'') (JStr (lit ''00:00''))) (\<lambda>sv.
     andthen (time_to_minutes rt (py_str rt sv)) (\<lambda>start.
     andthen (py_get w (lit ''end'') (JStr (lit ''23:59''))) (\<lambda>ev.
     andthen (time_to_minutes rt (py_str rt ev)) (\<lambda>end.
       if days \<noteq> JStr (lit ''*'') \<and> is_list days \<and> JStr dow \<notin> set (elems days)
       then Inr False
       else if start \<le> end then Inr (start \<le> minutes \<and> minutes \<le> end)
       else Inr (minutes \<ge> start \<or> minutes \<le> end))))))"

fun windows_loop :: "runtime \<Rightarrow> pystr \<Rightarrow> int \<Rightarrow> json list \<Rightarrow> exn + bool" where
  "windows_loop rt dow minutes [] = Inr False"
| "windows_loop rt dow minutes (w # ws) =
     (case window_turn rt dow minutes w of
        Inl e \<Rightarrow> Inl e
      | Inr hit \<Rightarrow> if hit then Inr True else windows_loop rt dow minutes ws)"

text \<open>\<open>now_in_windows\<close> (lines 226-244), with the clock's reading as an argument.\<close>

definition now_in_windows :: "runtime \<Rightarrow> json \<Rightarrow> pynow \<Rightarrow> exn + bool" where
  "now_in_windows rt windows now =
     (if \<not> py_truthy rt windows then Inr True
      else
        andthen (dow_to_name (weekday now)) (\<lambda>dow.
        andthen (py_iter windows) (\<lambda>ws.
          windows_loop rt dow (int (hour now) * 60 + int (minute now)) ws)))"

text \<open>
  The windows of the specification, to compare \<open>now_in_windows\<close> with. A window
  is well formed when it is a dict whose \<open>days\<close> is the wildcard (the default) or a
  list, and whose \<open>start\<close> and \<open>end\<close> give a minute of the day. It matches a
  time when the weekday constraint holds (the wildcard matches any day) and the minute
  constraint holds, wrapping around midnight when start is after end.
\<close>

definition minute_of_day :: "pynow \<Rightarrow> int" where
  "minute_of_day now = int (hour now) * 60 + int (minute now)"

definition w_days :: "json \<Rightarrow> json" where
  "w_days w = (case py_get w (lit ''days'') (JStr (lit ''*'')) of Inr d \<Rightarrow> d | Inl e \<Rightarrow> JNull)"

definition w_start :: "runtime \<Rightarrow> json \<Rightarrow> exn + int" where
  "w_start rt w =
     andthen (py_get w (lit ''start'') (JStr (lit ''00:00''))) (\<lambda>v. time_to_minutes rt (py_str rt v))"

definition w_end :: "runtime \<Rightarrow> json \<Rightarrow> exn + int" where
  "w_end rt w =
     andthen (py_get w (lit ''end'') (JStr (lit ''23:59''))) (\<lambda>v. time_to_minutes rt (py_str rt v))"

definition day_matches :: "json \<Rightarrow> pystr \<Rightarrow> bool" where
  "day_matches days dow = (days = JStr (lit ''*'') \<or> (\<exists>ds. days = JArr ds \<and> JStr dow \<in> set ds))"

definition minute_matches :: "int \<Rightarrow> int \<Rightarrow> int \<Rightarrow> bool" where
  "minute_matches s e m = (if s \<le> e then s \<le> m \<and> m \<le> e else m \<ge> s \<or> m \<le> e)"

definition window_matches :: "runtime \<Rightarrow> json \<Rightarrow> pynow \<Rightarrow> bool" where
  "window_matches rt w now =
     (\<exists>dow s e. dow_to_name (weekday now) = Inr dow \<and> w_start rt w = Inr s \<and> w_end rt w = Inr e
        \<and> day_matches (w_days w) dow \<and> minute_matches s e (minute_of_day now))"

definition well_formed_window :: "runtime \<Rightarrow> json \<Rightarrow> bool" where
  "well_formed_window rt w =
     ((\<exists>kvs. w = JObj kvs) \<and> (w_days w = JStr (lit ''*'') \<or> is_list (w_days w))
      \<and> (\<exists>s. w_start rt w = Inr s) \<and> (\<exists>e. w_end rt w = Inr e))"

section \<open>What the program does to the outside\<close>

text \<open>
  The effects of the program are recorded as a list of events, in the order in which
  they happen: a request sent by \<open>http_get\<close> (URL, parameters, whether certificates
  are verified), a call of \<open>time.sleep\<close>, a record written by \<open>logging\<close>, and the
  call of \<open>send_telegram\<close> at line 312 (with the instrument, the bar, the signal and the
  candle timestamp that its message is built from). A log record keeps the values that
  the source formats into its message.
\<close>

datatype level = INFO | WARNING | ERROR

datatype logmsg =
    MissingTelegramConfig
  | MonitorStarted
  | ConfigReloaded
  | HttpErrorLog pystr "(pystr \<times> json) list"
  | NetErrorLog pystr "(pystr \<times> json) list"
  | ParseErrorLog exn pystr "(pystr \<times> json) list"
  | OkxAbnormal json
  | RowTooShort json
  | TelegramRefused json
  | TelegramRaised exn nat nat
  | NotEnoughCandles pystr pystr
  | SignalPushed pystr pystr pystr int
  | PushFailed pystr pystr pystr
  | NoSignal pystr pystr
  | WatcherFailed json exn

datatype event =
    HttpGet pystr "(pystr \<times> json) list" bool
  | Sleep int
  | Log level logmsg
  | SendTelegram pystr pystr pystr int

text \<open>
  \<open>http_get\<close> (lines 109-129). The reply is what \<open>urlopen\<close>, \<open>read\<close>, \<open>decode\<close>
  and \<open>json.loads\<close> give for this request: the parsed body or the exception raised.
  The function logs the exception and raises it again, so its result is the reply;
  \<open>http_get_events\<close> is what it does.
\<close>

definition http_get_events ::
  "pystr \<Rightarrow> (pystr \<times> json) list \<Rightarrow> bool \<Rightarrow> exn + json \<Rightarrow> event list" where
  "http_get_events url params ssl reply =
     HttpGet url params ssl #
     (case reply of
        Inr body \<Rightarrow> []
      | Inl HTTPError \<Rightarrow> [Log ERROR (HttpErrorLog url params)]
      | Inl URLError \<Rightarrow> [Log ERROR (NetErrorLog url params)]
      | Inl e \<Rightarrow> [Log ERROR (ParseErrorLog e url params)])"

text \<open>
  \<open>time.sleep(n)\<close> for an int: the exception it raises, if any, when the argument is
  checked and converted. The operating system may refuse a very long sleep that passes
  these checks; the theorems below use the value of \<open>py_sleep\<close> only at intervals of a
  few seconds.
\<close>

definition py_sleep :: "int \<Rightarrow> exn option" where
  "py_sleep n =
     (if n * 10 ^ 9 < - (2 ^ 63) \<or> 2 ^ 63 - 1 < n * 10 ^ 9 then Some OverflowError
      else if n < 0 then Some ValueError
      else None)"

section \<open>The market data gateway\<close>

definition okx_url :: pystr where
  "okx_url = lit ''https://www.okx.com'' @ lit ''/api/v5/market/candles''"

definition has_key :: "json \<Rightarrow> pystr \<Rightarrow> bool" where
  "has_key x k = (case x of JObj kvs \<Rightarrow> map_of kvs k \<noteq> None | _ \<Rightarrow> False)"

text \<open>
  The body of the loop over the rows (lines 146-164): \<open>Inr None\<close> when the row is
  skipped with a warning, \<open>Inr (Some c)\<close> when the candle \<open>c\<close> is appended.
\<close>

definition row_confirm :: "runtime \<Rightarrow> json \<Rightarrow> nat \<Rightarrow> exn + int" where
  "row_confirm rt r n =
     (if 8 < n then
        andthen (py_index r 8) (\<lambda>r8.
          if py_isdigit rt (py_str rt r8) then py_int rt r8 else Inr 1)
      else Inr 1)"

definition parse_row :: "runtime \<Rightarrow> json \<Rightarrow> (exn + candle option) \<times> event list" where
  "parse_row rt r =
     (case py_len r of
        Inl e \<Rightarrow> (Inl e, [])
      | Inr n \<Rightarrow>
          if n < 5 then (Inr None, [Log WARNING (RowTooShort r)])
          else
            (andthen (andthen (py_index r 0) (py_int rt)) (\<lambda>ts.
             andthen (andthen (py_index r 1) (py_float rt)) (\<lambda>op.
             andthen (andthen (py_index r 2) (py_float rt)) (\<lambda>hi.
             andthen (andthen (py_index r 3) (py_float rt)) (\<lambda>lo.
             andthen (andthen (py_index r 4) (py_float rt)) (\<lambda>cl.
             andthen (row_confirm rt r n) (\<lambda>confirm.
               Inr (Some \<lparr>k_ts = ts, k_o = op, k_h = hi, k_l = lo, k_c = cl,
                           k_confirm = confirm\<rparr>))))))),
             []))"

fun rows_loop :: "runtime \<Rightarrow> json list \<Rightarrow> (exn + candle list) \<times> event list" where
  "rows_loop rt [] = (Inr [], [])"
| "rows_loop rt (r # rs) =
     (case parse_row rt r of
        (Inl e, tr) \<Rightarrow> (Inl e, tr)
      | (Inr oc, tr) \<Rightarrow>
          (case rows_loop rt rs of
             (Inl e, tr') \<Rightarrow> (Inl e, tr @ tr')
           | (Inr cs, tr') \<Rightarrow> (Inr ((case oc of None \<Rightarrow> [] | Some c \<Rightarrow> [c]) @ cs), tr @ tr')))"

text \<open>
  \<open>fetch_closed_candles\<close> (lines 132-166), with the reply to its request as an
  argument: the candles or the exception, and the events.
\<close>

definition fetch_closed_candles ::
  "runtime \<Rightarrow> exn + json \<Rightarrow> pystr \<Rightarrow> pystr \<Rightarrow> int \<Rightarrow> bool
     \<Rightarrow> (exn + candle list) \<times> event list" where
  "fetch_closed_candles rt reply inst_id bar limit ssl =
     (let params = [(lit ''instId'', JStr inst_id), (lit ''bar'', JStr bar),
                    (lit ''limit'', JStr (show_int limit))];
          evs = http_get_events okx_url params ssl reply
      in case reply of
           Inl e \<Rightarrow> (Inl e, evs)
         | Inr data \<Rightarrow>
             (case py_get data (lit ''code'') JNull of
                Inl e \<Rightarrow> (Inl e, evs)
              | Inr code \<Rightarrow>
                  if py_str rt code \<noteq> lit ''0'' \<or> \<not> has_key data (lit ''data'')
                  then (Inl RuntimeError, evs @ [Log ERROR (OkxAbnormal data)])
                  else
                    (case andthen (py_get data (lit ''data'') JNull) py_iter of
                       Inl e \<Rightarrow> (Inl e, evs)
                     | Inr rows \<Rightarrow>
                         (case rows_loop rt rows of
                            (Inl e, tr) \<Rightarrow> (Inl e, evs @ tr)
                          | (Inr candles, tr) \<Rightarrow>
                              (Inr (filter (\<lambda>x. k_confirm x = 1) candles), evs @ tr)))))"


section \<open>The notifier\<close>

definition telegram_url :: "runtime \<Rightarrow> json \<Rightarrow> pystr" where
  "telegram_url rt tok =
     lit ''https://api.telegram.org'' @ lit ''/bot'' @ py_str rt tok @ lit ''/sendMessage''"

text \<open>
  \<open>send_telegram\<close> (lines 184-202): \<open>replies k\<close> is the reply to the request of
  attempt \<open>k\<close>. \<open>send_attempts\<close> is the loop from attempt \<open>k\<close> with \<open>n\<close> attempts left.
\<close>

fun send_attempts ::
  "runtime \<Rightarrow> (nat \<Rightarrow> exn + json) \<Rightarrow> pystr \<Rightarrow> (pystr \<times> json) list \<Rightarrow> bool \<Rightarrow> nat \<Rightarrow> nat
     \<Rightarrow> nat \<Rightarrow> bool \<times> event list" where
  "send_attempts rt replies url payload ssl max_retries k 0 = (False, [])"
| "send_attempts rt replies url payload ssl max_retries k (Suc n) =
     (let evs = http_get_events url payload ssl (replies k);
          rest = send_attempts rt replies url payload ssl max_retries (Suc k) n;
          again = (\<lambda>warning.
            (fst rest, evs @ [Log WARNING warning, Sleep (2 * int k)] @ snd rest))
      in case andthen (replies k) (\<lambda>resp.
                andthen (py_get resp (lit ''ok'') (JBool False)) (\<lambda>ok. Inr (resp, ok))) of
           Inl e \<Rightarrow> again (TelegramRaised e k max_retries)
         | Inr (resp, ok) \<Rightarrow>
             if py_truthy rt ok then (True, evs) else again (TelegramRefused resp))"

definition send_telegram ::
  "runtime \<Rightarrow> (nat \<Rightarrow> exn + json) \<Rightarrow> json \<Rightarrow> pystr \<Rightarrow> pystr \<Rightarrow> bool \<Rightarrow> bool \<times> event list" where
  "send_telegram rt replies tok chat text ssl =
     send_attempts rt replies (telegram_url rt tok)
       [(lit ''chat_id'', JStr chat), (lit ''text'', JStr text),
        (lit ''parse_mode'', JStr (lit ''HTML'')),
        (lit ''disable_web_page_preview'', JBool True)]
       ssl 3 1 3"

text \<open>\<open>ts_to_str\<close> (lines 205-209) and the message of lines 306-311.\<close>

definition ts_to_str :: "runtime \<Rightarrow> int \<Rightarrow> pystr" where
  "ts_to_str rt ts_ms = (case rt_strftime rt ts_ms of Inr s \<Rightarrow> s | Inl e \<Rightarrow> show_int ts_ms)"

definition alert_text :: "runtime \<Rightarrow> pystr \<Rightarrow> pystr \<Rightarrow> pystr \<Rightarrow> int \<Rightarrow> pystr" where
  "alert_text rt inst_id bar signal ts =
     [24065, 31181] @ lit '': '' @ inst_id @ [10]
     @ [21608, 26399] @ lit '': '' @ bar @ [10]
     @ [20449, 21495] @ lit '': '' @ signal @ [10]
     @ [26102, 38388] @ lit '': '' @ ts_to_str rt ts @ [10]"

section \<open>The monitor loop\<close>

text \<open>
  The dedup state \<open>state_last_closed_ts\<close>: a dict from (instrument id, bar) to the
  timestamp of the newest closed candle last seen for that key.
\<close>

type_synonym dedup = "pystr \<times> pystr \<Rightarrow> int option"

text \<open>
  What the outside answers while one watcher is processed: the clock read by the
  watcher's window check, the reply to the candle request, and the replies to the
  attempts of the alert.
\<close>

record wenv =
  w_clock :: pynow
  w_candles :: "exn + json"
  w_telegram :: "nat \<Rightarrow> exn + json"

text \<open>A method of \<open>str\<close> called on a value that is no str raises \<open>AttributeError\<close>.\<close>

definition as_str :: "json \<Rightarrow> exn + pystr" where
  "as_str x = (case x of JStr s \<Rightarrow> Inr s | _ \<Rightarrow> Inl AttributeError)"

text \<open>
  Lines 292-318: what the loop does with the closed candles of one watcher. Nothing
  here raises.
\<close>

definition watcher_signal ::
  "runtime \<Rightarrow> wenv \<Rightarrow> json \<Rightarrow> pystr \<Rightarrow> bool \<Rightarrow> dedup \<Rightarrow> pystr \<Rightarrow> pystr \<Rightarrow> candle list
     \<Rightarrow> dedup \<times> event list" where
  "watcher_signal rt env tok chat ssl st inst_id bar closedc =
     (if length closedc < 3 then (st, [Log INFO (NotEnoughCandles inst_id bar)])
      else
        (let latest_closed = closedc ! 0;
             key = (inst_id, bar)
         in if st key = Some (k_ts latest_closed) then (st, [])
            else
              (let st' = st(key \<mapsto> k_ts latest_closed);
                   signal = pattern_signal [closedc ! 2, closedc ! 1, closedc ! 0]
               in if signal \<noteq> None \<and> signal \<noteq> Some [] then
                    (let sent = send_telegram rt (w_telegram env) tok chat
                                  (alert_text rt inst_id bar (the signal) (k_ts latest_closed))
                                  ssl
                     in (st',
                         SendTelegram inst_id bar (the signal) (k_ts latest_closed)
                         # snd sent
                         @ [if fst sent
                            then Log INFO (SignalPushed inst_id bar (the signal)
                                             (k_ts latest_closed))
                            else Log ERROR (PushFailed inst_id bar (the signal))]))
                  else (st', [Log INFO (NoSignal inst_id bar)]))))"

text \<open>
  Lines 284-290 for the watcher \<open>w\<close>: its fields, its window check and its instrument
  id. \<open>Inr None\<close> is the \<open>continue\<close> of line 289; \<open>Inr (Some (inst_id, bar))\<close> goes on
  to the request.
\<close>

definition watcher_target ::
  "runtime \<Rightarrow> wenv \<Rightarrow> json \<Rightarrow> exn + (pystr \<times> pystr) option" where
  "watcher_target rt env w =
     andthen (py_get w (lit ''pair'') (JStr [])) (\<lambda>pair.
     andthen (py_get w (lit ''contract_type'') (JStr (lit ''SWAP''))) (\<lambda>ctype.
     andthen (andthen (py_get w (lit ''bar'') (JStr (lit ''12H''))) as_str) (\<lambda>bar0.
     andthen (py_get w (lit ''active_windows'') JNull) (\<lambda>w_windows.
     andthen (if py_truthy rt w_windows then now_in_windows rt w_windows (w_clock env)
              else Inr True) (\<lambda>inside.
       if \<not> inside then Inr None
       else
         andthen (as_str pair) (\<lambda>p.
         andthen (as_str ctype) (\<lambda>c.
         andthen (pair_to_inst_id rt p c) (\<lambda>inst_id.
           Inr (Some (inst_id, normalize_bar rt bar0))))))))))"

text \<open>
  The body of the \<open>try\<close> of lines 284-318 for the watcher \<open>w\<close>: the exception that
  leaves it, if any, the dedup state and the events.
\<close>

definition watcher_body ::
  "runtime \<Rightarrow> wenv \<Rightarrow> json \<Rightarrow> pystr \<Rightarrow> bool \<Rightarrow> dedup \<Rightarrow> json
     \<Rightarrow> exn option \<times> dedup \<times> event list" where
  "watcher_body rt env tok chat ssl st w =
     (case watcher_target rt env w of
        Inl e \<Rightarrow> (Some e, st, [])
      | Inr None \<Rightarrow> (None, st, [])
      | Inr (Some (inst_id, bar)) \<Rightarrow>
          (case fetch_closed_candles rt (w_candles env) inst_id bar 10 ssl of
             (Inl e, tr) \<Rightarrow> (Some e, st, tr)
           | (Inr closedc, tr) \<Rightarrow>
               (let r = watcher_signal rt env tok chat ssl st inst_id bar closedc
                in (None, fst r, tr @ snd r))))"

text \<open>Lines 283-322: the \<open>try\<close> with its \<open>except Exception\<close>.\<close>

definition process_watcher ::
  "runtime \<Rightarrow> wenv \<Rightarrow> json \<Rightarrow> pystr \<Rightarrow> bool \<Rightarrow> dedup \<Rightarrow> json \<Rightarrow> dedup \<times> event list" where
  "process_watcher rt env tok chat ssl st w =
     (case watcher_body rt env tok chat ssl st w of
        (None, st', tr) \<Rightarrow> (st', tr)
      | (Some e, st', tr) \<Rightarrow> (st', tr @ [Log ERROR (WatcherFailed w e)]))"

text \<open>
  The loop of line 282 over the watchers; the watcher at position \<open>i\<close> of the list is
  answered by \<open>envs i\<close>.
\<close>

fun watchers_loop ::
  "runtime \<Rightarrow> (nat \<Rightarrow> wenv) \<Rightarrow> nat \<Rightarrow> json \<Rightarrow> pystr \<Rightarrow> bool \<Rightarrow> dedup \<Rightarrow> json list
     \<Rightarrow> dedup \<times> event list" where
  "watchers_loop rt envs i tok chat ssl st [] = (st, [])"
| "watchers_loop rt envs i tok chat ssl st (w # ws) =
     (let r1 = process_watcher rt (envs i) tok chat ssl st w;
          r2 = watchers_loop rt envs (Suc i) tok chat ssl (fst r1) ws
      in (fst r2, snd r1 @ snd r2))"

text \<open>The local variables of \<open>run_monitor\<close> that live across the turns of its loop.\<close>

record monitor =
  token :: json
  chat_id :: pystr
  ssl_verify :: bool
  poll_interval :: int
  watchers :: json
  global_windows :: json
  last_mtime :: real
  state_last_closed_ts :: dedup

text \<open>
  What the outside answers during one turn of the loop: the modification time of the
  configuration file, the result of loading it, the clock read by the global window
  check, and the answers for each watcher.
\<close>

record tenv =
  t_mtime :: "exn + real"
  t_file :: "exn + json"
  t_clock :: pynow
  t_watch :: "nat \<Rightarrow> wenv"

text \<open>Lines 265-278: the reload check. Every exception ends it silently.\<close>

definition reload_check :: "runtime \<Rightarrow> tenv \<Rightarrow> monitor \<Rightarrow> monitor \<times> event list" where
  "reload_check rt env m =
     (case t_mtime env of
        Inl e \<Rightarrow> (m, [])
      | Inr mtime \<Rightarrow>
          if mtime = last_mtime m then (m, [])
          else
            (let m1 = m\<lparr>last_mtime := mtime\<rparr>
             in case t_file env of
                  Inl e \<Rightarrow> (m1, [])
                | Inr cfg \<Rightarrow>
             (case py_get cfg (lit ''telegram_token'') (JStr []) of
                  Inl e \<Rightarrow> (m1, [])
                | Inr tok \<Rightarrow>
             (let m2 = m1\<lparr>token := tok\<rparr>
              in case py_get cfg (lit ''telegram_chat_id'') (JStr []) of
                  Inl e \<Rightarrow> (m2, [])
                | Inr cid \<Rightarrow>
             (let m3 = m2\<lparr>chat_id := py_str rt cid\<rparr>
              in case py_get cfg (lit ''ssl_verify'') (JBool True) of
                  Inl e \<Rightarrow> (m3, [])
                | Inr sv \<Rightarrow>
             (let m4 = m3\<lparr>ssl_verify := py_truthy rt sv\<rparr>
              in case andthen (py_get cfg (lit ''poll_interval_seconds'') (JInt 30))
                        (py_int rt) of
                  Inl e \<Rightarrow> (m4, [])
                | Inr p \<Rightarrow>
             (let m5 = m4\<lparr>poll_interval := p\<rparr>
              in case py_get cfg (lit ''watchers'') (JArr []) of
                  Inl e \<Rightarrow> (m5, [])
                | Inr ws \<Rightarrow>
             (let m6 = m5\<lparr>watchers := ws\<rparr>
              in case py_get cfg (lit ''active_windows'') JNull of
                  Inl e \<Rightarrow> (m6, [])
                | Inr gw \<Rightarrow>
                    (m6\<lparr>global_windows := (if py_truthy rt gw then gw else JArr [])\<rparr>,
                     [Log INFO ConfigReloaded])))))))))"

text \<open>
  One turn of the \<open>while True\<close> loop (lines 265-324): the exception that leaves the
  loop, if any (nothing catches it, so it ends \<open>run_monitor\<close>), the variables after the
  turn, and the events of the turn.
\<close>

definition tick :: "runtime \<Rightarrow> tenv \<Rightarrow> monitor \<Rightarrow> exn option \<times> monitor \<times> event list" where
  "tick rt env m =
     (let r = reload_check rt env m;
          m1 = fst r
      in case now_in_windows rt (global_windows m1) (t_clock env) of
           Inl e \<Rightarrow> (Some e, m1, snd r)
         | Inr inside \<Rightarrow>
             if \<not> inside
             then (py_sleep (poll_interval m1), m1, snd r @ [Sleep (poll_interval m1)])
             else
               (case py_iter (watchers m1) of
                  Inl e \<Rightarrow> (Some e, m1, snd r)
                | Inr ws \<Rightarrow>
                    (let p = watchers_loop rt (t_watch env) 0 (token m1) (chat_id m1)
                               (ssl_verify m1) (state_last_closed_ts m1) ws
                     in (py_sleep (poll_interval m1),
                         m1\<lparr>state_last_closed_ts := fst p\<rparr>,
                         snd r @ snd p @ [Sleep (poll_interval m1)]))))"

text \<open>
  The loop never ends by itself. \<open>run_ticks\<close> runs it for as many turns as the list
  of answers is long, or until an exception leaves it.
\<close>

fun run_ticks :: "runtime \<Rightarrow> tenv list \<Rightarrow> monitor \<Rightarrow> exn option \<times> monitor \<times> event list" where
  "run_ticks rt [] m = (None, m, [])"
| "run_ticks rt (env # envs) m =
     (case tick rt env m of
        (Some e, m1, tr) \<Rightarrow> (Some e, m1, tr)
      | (None, m1, tr) \<Rightarrow>
          (let r = run_ticks rt envs m1 in (fst r, fst (snd r), tr @ snd (snd r))))"

text \<open>
  \<open>run_monitor\<close> (lines 246-324). The outside answers the start with the result of
  loading the configuration file, of setting up the logger and of reading the file's
  modification time, then the turns of the loop. The run ends with an uncaught
  exception, with the \<open>return\<close> of line 254, or is still in its loop when the answers
  are used up.
\<close>

record world =
  s_file :: "exn + json"
  s_logger :: "exn option"
  s_mtime :: "exn + real"
  s_ticks :: "tenv list"

datatype ending = Crashed exn | Returned | Looping monitor

definition run_monitor :: "runtime \<Rightarrow> world \<Rightarrow> ending \<times> event list" where
  "run_monitor rt wd =
     (case s_file wd of
        Inl e \<Rightarrow> (Crashed e, [])
      | Inr cfg \<Rightarrow>
     (case py_get cfg (lit ''log_path'') (JStr (lit ''okx_monitor.log'')) of
        Inl e \<Rightarrow> (Crashed e, [])
      | Inr log_path \<Rightarrow>
     (case s_logger wd of
        Some e \<Rightarrow> (Crashed e, [])
      | None \<Rightarrow>
     (case andthen (py_get cfg (lit ''telegram_token'') (JStr [])) (\<lambda>tok.
           andthen (py_get cfg (lit ''telegram_chat_id'') (JStr [])) (\<lambda>cid.
           andthen (py_get cfg (lit ''ssl_verify'') (JBool True)) (\<lambda>sv.
             Inr (tok, py_str rt cid, py_truthy rt sv)))) of
        Inl e \<Rightarrow> (Crashed e, [])
      | Inr (tok, chat, ssl) \<Rightarrow>
          if \<not> py_truthy rt tok \<or> chat = []
          then (Returned, [Log ERROR MissingTelegramConfig])
          else
     (case andthen (andthen (py_get cfg (lit ''poll_interval_seconds'') (JInt 30)) (py_int rt))
             (\<lambda>p.
           andthen (py_get cfg (lit ''watchers'') (JArr [])) (\<lambda>ws.
           andthen (py_get cfg (lit ''active_windows'') JNull) (\<lambda>gw.
           andthen (s_mtime wd) (\<lambda>mtime.
             Inr \<lparr>token = tok, chat_id = chat, ssl_verify = ssl, poll_interval = p,
                  watchers = ws,
                  global_windows = (if py_truthy rt gw then gw else JArr []),
                  last_mtime = mtime, state_last_closed_ts = Map.empty\<rparr>)))) of
        Inl e \<Rightarrow> (Crashed e, [])
      | Inr m0 \<Rightarrow>
          (let r = run_ticks rt (s_ticks wd) m0;
               tr = Log INFO MonitorStarted # snd (snd r)
           in case fst r of
                Some e \<Rightarrow> (Crashed e, tr)
              | None \<Rightarrow> (Looping (fst (snd r)), tr)))))))"


text \<open>
  The active configuration: the six variables that the reload assigns. \<open>file_config\<close>
  is what lines 249-259 and 270-275 read from a loaded configuration file, all at once.
\<close>

definition config_of :: "monitor \<Rightarrow> json \<times> pystr \<times> bool \<times> int \<times> json \<times> json" where
  "config_of m =
     (token m, chat_id m, ssl_verify m, poll_interval m, watchers m, global_windows m)"

definition file_config ::
  "runtime \<Rightarrow> json \<Rightarrow> exn + (json \<times> pystr \<times> bool \<times> int \<times> json \<times> json)" where
  "file_config rt cfg =
     andthen (py_get cfg (lit ''telegram_token'') (JStr [])) (\<lambda>tok.
     andthen (py_get cfg (lit ''telegram_chat_id'') (JStr [])) (\<lambda>cid.
     andthen (py_get cfg (lit ''ssl_verify'') (JBool True)) (\<lambda>sv.
     andthen (andthen (py_get cfg (lit ''poll_interval_seconds'') (JInt 30)) (py_int rt)) (\<lambda>p.
     andthen (py_get cfg (lit ''watchers'') (JArr [])) (\<lambda>ws.
     andthen (py_get cfg (lit ''active_windows'') JNull) (\<lambda>gw.
       Inr (tok, py_str rt cid, py_truthy rt sv, p, ws,
            if py_truthy rt gw then gw else JArr [])))))))"

text \<open>A key of the configuration that is missing, or present with the empty string.\<close>

definition missing_or_empty :: "json \<Rightarrow> pystr \<Rightarrow> bool" where
  "missing_or_empty cfg k =
     (case cfg of
        JObj kvs \<Rightarrow> (case map_of kvs k of None \<Rightarrow> True | Some v \<Rightarrow> v = JStr [])
      | _ \<Rightarrow> False)"

text \<open>A key of the configuration that is present with \<open>null\<close>.\<close>

definition null_at :: "json \<Rightarrow> pystr \<Rightarrow> bool" where
  "null_at cfg k =
     (case cfg of
        JObj kvs \<Rightarrow> (case map_of kvs k of None \<Rightarrow> False | Some v \<Rightarrow> v = JNull)
      | _ \<Rightarrow> False)"

text \<open>The events that reach the exchange or the notifier.\<close>

fun is_request :: "event \<Rightarrow> bool" where
  "is_request (HttpGet url params ssl) = True"
| "is_request (SendTelegram inst_id bar signal ts) = True"
| "is_request e = False"

text \<open>
  The alerts for a dedup key and a candle timestamp in a list of events: the calls of
  \<open>send_telegram\<close> for that instrument, bar and timestamp.
\<close>

fun is_alert :: "pystr \<times> pystr \<Rightarrow> int \<Rightarrow> event \<Rightarrow> bool" where
  "is_alert k T (SendTelegram inst_id bar signal ts) = ((inst_id, bar) = k \<and> ts = T)"
| "is_alert k T e = False"

definition alerts_for :: "pystr \<times> pystr \<Rightarrow> int \<Rightarrow> event list \<Rightarrow> nat" where
  "alerts_for k T tr = length (filter (is_alert k T) tr)"

text \<open>
  What a watcher reads. \<open>fetched\<close> is the list that \<open>fetch_closed_candles\<close> returns for
  a reply of the exchange (its result does not depend on the instrument, the bar or the
  ssl flag, which only go into the request). \<open>observed\<close> is the dedup key that lines
  284-296 compute for a watcher together with the timestamp of \<open>closed[0]\<close>, when the
  watcher gets as far as line 295: its windows let it through, its pair gives an
  instrument, the fetch returns and there are at least 3 closed candles.
  \<open>loop_observed\<close>, \<open>tick_observed\<close> and \<open>run_observed\<close> collect these readings in
  the order in which the \<open>for\<close> loop, a turn of the \<open>while\<close> loop and a run make them.
\<close>

definition fetched :: "runtime \<Rightarrow> exn + json \<Rightarrow> exn + candle list" where
  "fetched rt reply = fst (fetch_closed_candles rt reply [] [] 10 True)"

definition observed :: "runtime \<Rightarrow> wenv \<Rightarrow> json \<Rightarrow> ((pystr \<times> pystr) \<times> int) option" where
  "observed rt we w =
     (case watcher_target rt we w of
        Inr (Some key) \<Rightarrow>
          (case fetched rt (w_candles we) of
             Inr cs \<Rightarrow> if 3 \<le> length cs then Some (key, k_ts (cs ! 0)) else None
           | Inl e \<Rightarrow> None)
      | _ \<Rightarrow> None)"

fun loop_observed :: "runtime \<Rightarrow> (nat \<Rightarrow> wenv) \<Rightarrow> nat \<Rightarrow> json list \<Rightarrow> ((pystr \<times> pystr) \<times> int) list" where
  "loop_observed rt envs i [] = []"
| "loop_observed rt envs i (w # ws) =
     (case observed rt (envs i) w of None \<Rightarrow> [] | Some x \<Rightarrow> [x]) @ loop_observed rt envs (Suc i) ws"

definition tick_observed :: "runtime \<Rightarrow> tenv \<Rightarrow> monitor \<Rightarrow> ((pystr \<times> pystr) \<times> int) list" where
  "tick_observed rt env m =
     (let m1 = fst (reload_check rt env m)
      in case now_in_windows rt (global_windows m1) (t_clock env) of
           Inr inside \<Rightarrow>
             if inside
             then (case py_iter (watchers m1) of
                     Inr ws \<Rightarrow> loop_observed rt (t_watch env) 0 ws
                   | Inl e \<Rightarrow> [])
             else []
         | Inl e \<Rightarrow> [])"

fun run_observed :: "runtime \<Rightarrow> tenv list \<Rightarrow> monitor \<Rightarrow> ((pystr \<times> pystr) \<times> int) list" where
  "run_observed rt [] m = []"
| "run_observed rt (env # envs) m =
     tick_observed rt env m
     @ (case fst (tick rt env m) of
          None \<Rightarrow> run_observed rt envs (fst (snd (tick rt env m)))
        | Some e \<Rightarrow> [])"

text \<open>
  The timestamps read for one key, in order. \<open>entries_into T prev xs\<close> counts how often
  the entry of the dedup state for the key changes to \<open>T\<close> when the readings \<open>xs\<close> are
  recorded one after the other, starting from the entry \<open>prev\<close>; \<open>last_entry\<close> is the
  entry afterwards.
\<close>

definition key_obs :: "pystr \<times> pystr \<Rightarrow> ((pystr \<times> pystr) \<times> int) list \<Rightarrow> int list" where
  "key_obs k obs = map snd (filter (\<lambda>x. fst x = k) obs)"

fun entries_into :: "int \<Rightarrow> int option \<Rightarrow> int list \<Rightarrow> nat" where
  "entries_into T prev [] = 0"
| "entries_into T prev (x # xs) =
     (if x = T \<and> prev \<noteq> Some T then 1 else 0) + entries_into T (Some x) xs"

definition last_entry :: "int option \<Rightarrow> int list \<Rightarrow> int option" where
  "last_entry prev xs = (if xs = [] then prev else Some (last xs))"

section \<open>Sample values\<close>

text \<open>A candle that opens at \<open>a\<close> and closes at \<open>b\<close>.\<close>

definition sample_candle :: "real \<Rightarrow> real \<Rightarrow> candle" where
  "sample_candle a b =
     \<lparr>k_ts = 0, k_o = Fin a, k_h = Fin a, k_l = Fin a, k_c = Fin b, k_confirm = 1\<rparr>"

text \<open>
  A runtime for the examples: it answers like the interpreter on the text that the
  examples use (ASCII digits for floats) and refuses everything else.
\<close>

definition rt0 :: runtime where
  "rt0 = \<lparr>rt_upper = (\<lambda>s. s), rt_lower = (\<lambda>s. s), rt_isdigit = (\<lambda>s. False),
           rt_int_text = (\<lambda>s. Inl ValueError),
           rt_float_text =
             (\<lambda>s. case ascii_int s of Inl e \<Rightarrow> Inl e | Inr n \<Rightarrow> Inr (Fin (of_int n))),
           rt_float_int = (\<lambda>n. Inr (Fin (of_int n))),
           rt_repr = (\<lambda>x. lit ''?''), rt_strftime = (\<lambda>t. Inl ValueError)\<rparr>"

text \<open>Two windows: 22:00 to 06:00 on any day, and 09:00 to 17:30 on Monday and Friday.\<close>

definition night_window :: json where
  "night_window = JObj [(lit ''start'', JStr (lit ''22:00'')), (lit ''end'', JStr (lit ''06:00''))]"

definition office_window :: json where
  "office_window =
     JObj [(lit ''days'', JArr [JStr (lit ''Mon''), JStr (lit ''Fri'')]),
           (lit ''start'', JStr (lit ''09:00'')), (lit ''end'', JStr (lit ''17:30''))]"

text \<open>
  Replies of the exchange: a row with timestamp, open, close and confirm flag (high and
  low as the open), and the envelope with the success code.
\<close>

definition okx_row :: "string \<Rightarrow> string \<Rightarrow> string \<Rightarrow> string \<Rightarrow> json" where
  "okx_row t a b f =
     JArr [JStr (lit t), JStr (lit a), JStr (lit a), JStr (lit a), JStr (lit b),
           JStr (lit ''0''), JStr (lit ''0''), JStr (lit ''0''), JStr (lit f)]"

definition okx_reply :: "json list \<Rightarrow> exn + json" where
  "okx_reply rows = Inr (JObj [(lit ''code'', JStr (lit ''0'')), (lit ''data'', JArr rows)])"

definition candle_at :: "int \<Rightarrow> real \<Rightarrow> real \<Rightarrow> candle" where
  "candle_at t a b = (sample_candle a b)\<lparr>k_ts := t\<rparr>"

definition rows_a :: "json list" where
  "rows_a = [okx_row ''3000'' ''90'' ''98'' ''1'', okx_row ''2000'' ''95'' ''90'' ''1'',
             okx_row ''1000'' ''100'' ''95'' ''1'']"


text \<open>
  A watcher, the variables of a running monitor, configuration files, the clock at
  Monday noon, replies of the notifier, and the answers of the outside for a watcher
  and for a turn of the loop.
\<close>

definition watcher_btc :: json where
  "watcher_btc = JObj [(lit ''pair'', JStr (lit ''BTC-USDT'')), (lit ''bar'', JStr (lit ''1h''))]"

definition mon_a :: monitor where
  "mon_a = \<lparr>token = JStr (lit ''T''), chat_id = lit ''42'', ssl_verify = True,
             poll_interval = 5, watchers = JArr [watcher_btc], global_windows = JArr [],
             last_mtime = 1, state_last_closed_ts = Map.empty\<rparr>"

definition cfg_b :: json where
  "cfg_b = JObj [(lit ''telegram_token'', JStr (lit ''N'')),
                 (lit ''telegram_chat_id'', JStr (lit ''7'')),
                 (lit ''poll_interval_seconds'', JStr (lit ''9''))]"

definition cfg_torn :: json where
  "cfg_torn = JObj [(lit ''telegram_token'', JStr (lit ''N'')),
                    (lit ''poll_interval_seconds'', JStr (lit ''soon'')),
                    (lit ''watchers'', JArr [])]"

definition cfg_no_token :: json where
  "cfg_no_token = JObj [(lit ''telegram_chat_id'', JStr (lit ''7'')),
                        (lit ''watchers'', JArr [watcher_btc])]"

definition cfg_null_token :: json where
  "cfg_null_token = JObj [(lit ''telegram_token'', JNull),
                          (lit ''telegram_chat_id'', JStr (lit ''7''))]"

definition cfg_null_chat :: json where
  "cfg_null_chat = JObj [(lit ''telegram_token'', JStr (lit ''N'')),
                         (lit ''telegram_chat_id'', JNull)]"

definition noon :: pynow where
  "noon = \<lparr>weekday = 0, hour = 12, minute = 0\<rparr>"

definition tg_ok :: "nat \<Rightarrow> exn + json" where
  "tg_ok k = Inr (JObj [(lit ''ok'', JBool True)])"

definition tg_down :: "nat \<Rightarrow> exn + json" where
  "tg_down k = Inl URLError"

definition wenv_of :: "exn + json \<Rightarrow> (nat \<Rightarrow> exn + json) \<Rightarrow> wenv" where
  "wenv_of reply tg = \<lparr>w_clock = noon, w_candles = reply, w_telegram = tg\<rparr>"

definition tenv_of :: "exn + real \<Rightarrow> exn + json \<Rightarrow> wenv \<Rightarrow> tenv" where
  "tenv_of mt file we = \<lparr>t_mtime = mt, t_file = file, t_clock = noon, t_watch = (\<lambda>i. we)\<rparr>"

definition quiet :: wenv where
  "quiet = wenv_of (Inl URLError) tg_down"

text \<open>
  A watcher whose pair has no base and quote, a watcher with the night window, and a
  monitor whose global window is the night window.
\<close>

definition watcher_xyz :: json where
  "watcher_xyz = JObj [(lit ''pair'', JStr (lit ''XYZ'')), (lit ''bar'', JStr (lit ''1h''))]"

definition watcher_night :: json where
  "watcher_night =
     JObj [(lit ''pair'', JStr (lit ''BTC-USDT'')), (lit ''bar'', JStr (lit ''1h'')),
           (lit ''active_windows'', JArr [night_window])]"

definition mon_night :: monitor where
  "mon_night = mon_a\<lparr>global_windows := JArr [night_window]\<rparr>"

text \<open>
  A reply whose newest closed candle is a later one (no pattern in its three newest
  candles), the dedup key of \<open>watcher_btc\<close>, and turns of the loop in which the
  configuration file is unchanged and the exchange answers with \<open>rows_a\<close> or \<open>rows_c\<close>,
  the notifier accepting or unreachable.
\<close>

definition rows_c :: "json list" where
  "rows_c = [okx_row ''4000'' ''98'' ''99'' ''1'', okx_row ''3000'' ''90'' ''98'' ''1'',
             okx_row ''2000'' ''95'' ''90'' ''1'']"

definition key_btc :: "pystr \<times> pystr" where
  "key_btc = (lit ''BTC-USDT-SWAP'', lit ''1H'')"

definition turn_a :: tenv where
  "turn_a = tenv_of (Inr 1) (Inr cfg_b) (wenv_of (okx_reply rows_a) tg_ok)"

definition turn_a_down :: tenv where
  "turn_a_down = tenv_of (Inr 1) (Inr cfg_b) (wenv_of (okx_reply rows_a) tg_down)"

definition turn_c :: tenv where
  "turn_c = tenv_of (Inr 1) (Inr cfg_b) (wenv_of (okx_reply rows_c) tg_ok)"

section \<open>The candle classifier\<close>

lemma kinds_distinct:
  "bull \<noteq> bear" "bull \<noteq> doji" "bear \<noteq> doji" "bear \<noteq> bull" "doji \<noteq> bull"
  "doji \<noteq> bear"
  by (simp_all add: bull_def bear_def doji_def)

lemma signals_distinct:
  "bullish_reversal \<noteq> bearish_reversal" "bearish_reversal \<noteq> bullish_reversal"
  "bullish_reversal \<noteq> []" "bearish_reversal \<noteq> []"
  by (simp_all add: bullish_reversal_def bearish_reversal_def)

lemma fl_less_asym: "fl_less a b \<Longrightarrow> \<not> fl_less b a"
  by (cases a; cases b) auto

lemma classify_bull: "classify_candle x = bull \<longleftrightarrow> fl_less (k_o x) (k_c x)"
  by (simp add: classify_candle_def kinds_distinct)

lemma classify_bear: "classify_candle x = bear \<longleftrightarrow> fl_less (k_c x) (k_o x)"
  using fl_less_asym[of "k_o x" "k_c x"]
  by (auto simp add: classify_candle_def kinds_distinct)

lemma classify_doji:
  "classify_candle x = doji \<longleftrightarrow> \<not> fl_less (k_o x) (k_c x) \<and> \<not> fl_less (k_c x) (k_o x)"
  by (simp add: classify_candle_def kinds_distinct)

lemma map_take_three:
  assumes "3 \<le> length xs"
  shows "map f (take 3 xs) = [f (xs ! 0), f (xs ! 1), f (xs ! 2)]"
proof -
  from assms obtain a b c r where "xs = a # b # c # r"
    by (metis (no_types, opaque_lifting) Suc_le_length_iff numeral_3_eq_3)
  then show ?thesis by (simp add: numeral_3_eq_3)
qed

lemma pattern_signal_take:
  "pattern_signal xs =
     (if 3 \<le> length xs \<and> map classify_candle (take 3 xs) = [bear, bear, bull]
      then Some bullish_reversal
      else if 3 \<le> length xs \<and> map classify_candle (take 3 xs) = [bull, bull, bear]
      then Some bearish_reversal
      else None)"
proof (cases "3 \<le> length xs")
  case True
  then show ?thesis
    using map_take_three[OF True, of classify_candle]
    by (simp add: pattern_signal_def Let_def)
next
  case False
  then show ?thesis by (simp add: pattern_signal_def)
qed

text \<open>
  C2, as amended. A candle is bullish exactly when it closes above its open, bearish
  exactly when it closes below, and neither otherwise. \<open>pattern_signal\<close> reads the
  first three candles of its list: it returns the bullish reversal exactly when the list
  has at least three candles and the first three classify as bearish, bearish, bullish;
  the bearish reversal exactly when they classify as bullish, bullish, bearish; and
  \<open>None\<close> in every other case. So for a list of exactly three candles the signal is
  decided by the classification of the whole list, and a list of fewer than three
  candles gives \<open>None\<close>.
\<close>

theorem pattern_signal_first_three:
  "(classify_candle x = bull \<longleftrightarrow> fl_less (k_o x) (k_c x))
   \<and> (classify_candle x = bear \<longleftrightarrow> fl_less (k_c x) (k_o x))
   \<and> (classify_candle x = doji \<longleftrightarrow> \<not> fl_less (k_o x) (k_c x) \<and> \<not> fl_less (k_c x) (k_o x))
   \<and> (pattern_signal xs = Some bullish_reversal
        \<longleftrightarrow> 3 \<le> length xs \<and> map classify_candle (take 3 xs) = [bear, bear, bull])
   \<and> (pattern_signal xs = Some bearish_reversal
        \<longleftrightarrow> 3 \<le> length xs \<and> map classify_candle (take 3 xs) = [bull, bull, bear])
   \<and> (pattern_signal xs = None
        \<longleftrightarrow> \<not> (3 \<le> length xs \<and> map classify_candle (take 3 xs) = [bear, bear, bull])
          \<and> \<not> (3 \<le> length xs \<and> map classify_candle (take 3 xs) = [bull, bull, bear]))
   \<and> (length xs = 3 \<longrightarrow>
        (pattern_signal xs = Some bullish_reversal
           \<longleftrightarrow> map classify_candle xs = [bear, bear, bull])
        \<and> (pattern_signal xs = Some bearish_reversal
           \<longleftrightarrow> map classify_candle xs = [bull, bull, bear]))
   \<and> (length xs < 3 \<longrightarrow> pattern_signal xs = None)"
proof -
  have a: "[bear, bear, bull] \<noteq> [bull, bull, bear]" by (simp add: kinds_distinct)
  show ?thesis
    unfolding classify_bull classify_bear classify_doji pattern_signal_take[of xs]
    using a by (auto simp add: signals_distinct)
qed

theorem pattern_signal_first_three_witness:
  "pattern_signal [sample_candle 100 95, sample_candle 95 90, sample_candle 90 98]
     = Some bullish_reversal
   \<and> map classify_candle [sample_candle 100 95, sample_candle 95 90, sample_candle 90 98]
     = [bear, bear, bull]
   \<and> pattern_signal [sample_candle 100 95, sample_candle 95 90] = None"
  using pattern_signal_first_three
          [of "sample_candle 100 95"
              "[sample_candle 100 95, sample_candle 95 90, sample_candle 90 98]"]
        pattern_signal_first_three
          [of "sample_candle 100 95" "[sample_candle 100 95, sample_candle 95 90]"]
  by (simp add: sample_candle_def classify_candle_def kinds_distinct)

text \<open>
  C2 as stated fails on a list of four candles: the signal is the bullish reversal,
  yet the list does not classify as exactly bearish, bearish, bullish.
\<close>

theorem pattern_signal_longer_list:
  "pattern_signal
     [sample_candle 100 95, sample_candle 95 90, sample_candle 90 98, sample_candle 98 98]
     = Some bullish_reversal
   \<and> map classify_candle
       [sample_candle 100 95, sample_candle 95 90, sample_candle 90 98, sample_candle 98 98]
     \<noteq> [bear, bear, bull]"
  by (simp add: pattern_signal_def sample_candle_def classify_candle_def kinds_distinct)

section \<open>Instrument identifiers\<close>

lemma endswith_iff: "py_endswith s suf \<longleftrightarrow> (\<exists>b. s = b @ suf)"
proof
  assume "py_endswith s suf"
  then have "s = take (length s - length suf) s @ suf"
    by (metis append_take_drop_id py_endswith_def)
  then show "\<exists>b. s = b @ suf" ..
next
  assume "\<exists>b. s = b @ suf"
  then show "py_endswith s suf" by (auto simp: py_endswith_def)
qed

lemma endswith_base:
  "py_endswith s suf \<Longrightarrow> s = b @ suf \<longleftrightarrow> b = take (length s - length suf) s"
  by (metis append_eq_conv_conj append_take_drop_id py_endswith_def length_append add_diff_cancel_right')

lemma filter_nth_holds:
  assumes "i < length (filter P xs)"
  shows "P (filter P xs ! i)"
proof -
  have "filter P xs ! i \<in> set (filter P xs)" using assms by (rule nth_mem)
  then show ?thesis by simp
qed

lemma filter_parts_nonempty:
  assumes "2 \<le> length (filter (\<lambda>x. x \<noteq> []) ps)"
  shows "filter (\<lambda>x. x \<noteq> []) ps ! 0 \<noteq> [] \<and> filter (\<lambda>x. x \<noteq> []) ps ! 1 \<noteq> []"
proof -
  have "0 < length (filter (\<lambda>x. x \<noteq> []) ps)" "1 < length (filter (\<lambda>x. x \<noteq> []) ps)"
    using assms by linarith+
  then show ?thesis
    using filter_nth_holds[of 0 "\<lambda>x. x \<noteq> []" ps] filter_nth_holds[of 1 "\<lambda>x. x \<noteq> []" ps]
    by blast
qed

lemma usdt_not_usd: "b @ lit ''USDT'' \<noteq> c @ lit ''USD''"
proof
  assume "b @ lit ''USDT'' = c @ lit ''USD''"
  then have "last (b @ lit ''USDT'') = last (c @ lit ''USD'')" by simp
  then show False by (simp add: lit_def)
qed

lemma split_pair_empty: "(fst (split_pair p) = [] \<or> snd (split_pair p) = []) \<longleftrightarrow> undecomposable p"
proof (cases "45 \<in> set p")
  case True
  then show ?thesis
    using filter_parts_nonempty[of "split_on 45 p"]
    by (auto simp: split_pair_def undecomposable_def Let_def)
next
  case n45: False
  show ?thesis
  proof (cases "47 \<in> set p")
    case True
    then show ?thesis
      using n45 filter_parts_nonempty[of "split_on 47 p"]
      by (auto simp: split_pair_def undecomposable_def Let_def)
  next
    case n47: False
    have l4: "length (lit ''USDT'') = 4" and l3: "length (lit ''USD'') = 3"
      and ne: "lit ''USDT'' \<noteq> []" "lit ''USD'' \<noteq> []"
      by (simp_all add: lit_def)
    show ?thesis
    proof (cases "py_endswith p (lit ''USDT'')")
      case True
      then obtain b where b: "p = b @ lit ''USDT''" by (auto simp: endswith_iff)
      have "fst (split_pair p) = b" "snd (split_pair p) = lit ''USDT''"
        using n45 n47 True b l4 by (simp_all add: split_pair_def)
      moreover have "undecomposable p \<longleftrightarrow> b = []"
        using n45 n47 b usdt_not_usd by (auto simp: undecomposable_def)
      ultimately show ?thesis using ne by simp
    next
      case nt: False
      show ?thesis
      proof (cases "py_endswith p (lit ''USD'')")
        case True
        then obtain b where b: "p = b @ lit ''USD''" by (auto simp: endswith_iff)
        have "fst (split_pair p) = b" "snd (split_pair p) = lit ''USD''"
          using n45 n47 nt True b l3 by (simp_all add: split_pair_def)
        moreover have "undecomposable p \<longleftrightarrow> b = []"
          using n45 n47 b nt by (auto simp: undecomposable_def endswith_iff)
        ultimately show ?thesis using ne by simp
      next
        case False
        then show ?thesis
          using n45 n47 nt by (auto simp: split_pair_def undecomposable_def endswith_iff)
      qed
    qed
  qed
qed

lemmas eval_pair = pair_to_inst_id_def normalize_contract_type_def split_pair_def py_upper_def
  py_strip_def lit_def plain_def ascii_upper_def py_isspace_def py_remove_def py_endswith_def

text \<open>
  C9. The pair \<open>BTC-USDT\<close> with contract type \<open>SWAP\<close> gives \<open>BTC-USDT-SWAP\<close>;
  the pair \<open>ETHUSDT\<close> with the contract type U+6C38 U+7EED gives \<open>ETH-USDT-SWAP\<close>;
  the pair \<open>XYZ\<close> raises. In general \<open>pair_to_inst_id\<close> raises \<open>ValueError\<close>
  (the source's exception for an unsupported pair format) exactly when the upper-cased,
  stripped pair cannot be decomposed into base and quote, and returns a value exactly
  when it can.
\<close>

theorem pair_to_inst_id_cases:
  "pair_to_inst_id rt (lit ''BTC-USDT'') (lit ''SWAP'') = Inr (lit ''BTC-USDT-SWAP'')
   \<and> pair_to_inst_id rt (lit ''ETHUSDT'') [27704, 32493] = Inr (lit ''ETH-USDT-SWAP'')
   \<and> pair_to_inst_id rt (lit ''XYZ'') ct = Inl ValueError
   \<and> (pair_to_inst_id rt pair ct = Inl ValueError
        \<longleftrightarrow> undecomposable (py_strip (py_upper rt pair)))
   \<and> ((\<exists>r. pair_to_inst_id rt pair ct = Inr r)
        \<longleftrightarrow> \<not> undecomposable (py_strip (py_upper rt pair)))"
proof -
  have 1: "pair_to_inst_id rt (lit ''BTC-USDT'') (lit ''SWAP'') = Inr (lit ''BTC-USDT-SWAP'')"
    by (simp add: eval_pair)
  have 2: "pair_to_inst_id rt (lit ''ETHUSDT'') [27704, 32493] = Inr (lit ''ETH-USDT-SWAP'')"
    by (simp add: eval_pair)
  have 3: "pair_to_inst_id rt (lit ''XYZ'') ct = Inl ValueError"
    by (simp add: eval_pair)
  have 4: "pair_to_inst_id rt pair ct = Inl ValueError
        \<longleftrightarrow> undecomposable (py_strip (py_upper rt pair))"
    using split_pair_empty[of "py_strip (py_upper rt pair)"]
    by (auto simp: pair_to_inst_id_def Let_def)
  have 5: "(\<exists>r. pair_to_inst_id rt pair ct = Inr r)
        \<longleftrightarrow> \<not> undecomposable (py_strip (py_upper rt pair))"
    using split_pair_empty[of "py_strip (py_upper rt pair)"]
    by (auto simp: pair_to_inst_id_def Let_def)
  show ?thesis using 1 2 3 4 5 by blast
qed

theorem pair_to_inst_id_cases_witness:
  "pair_to_inst_id rt0 (lit '' eth/usd '') (lit ''swap'') = Inr (lit ''ETH-USD-SWAP'')
   \<and> \<not> undecomposable (lit ''ETH/USD'')
   \<and> pair_to_inst_id rt0 (lit ''usdt'') (lit ''swap'') = Inl ValueError
   \<and> undecomposable (lit ''USDT'')"
proof -
  have a: "pair_to_inst_id rt0 (lit '' eth/usd '') (lit ''swap'') = Inr (lit ''ETH-USD-SWAP'')"
    by (simp add: eval_pair)
  have b: "pair_to_inst_id rt0 (lit ''usdt'') (lit ''swap'') = Inl ValueError"
    by (simp add: eval_pair)
  have c: "py_strip (py_upper rt0 (lit '' eth/usd '')) = lit ''ETH/USD''"
    by (simp add: eval_pair)
  have d: "py_strip (py_upper rt0 (lit ''usdt'')) = lit ''USDT''"
    by (simp add: eval_pair)
  show ?thesis
    using pair_to_inst_id_cases[of rt0 "lit ''swap''" "lit '' eth/usd ''"]
          pair_to_inst_id_cases[of rt0 "lit ''swap''" "lit ''usdt''"] a b c d
    by simp
qed

section \<open>The time-window evaluator\<close>

lemma window_turn_well_formed:
  assumes "well_formed_window rt w" "w_start rt w = Inr s" "w_end rt w = Inr e"
  shows "window_turn rt dow m w = Inr (day_matches (w_days w) dow \<and> minute_matches s e m)"
proof -
  from assms(1) obtain kvs where w: "w = JObj kvs" by (auto simp: well_formed_window_def)
  have d: "w_days w = JStr (lit ''*'') \<or> is_list (w_days w)"
    using assms(1) by (simp add: well_formed_window_def)
  have g: "py_get w (lit ''days'') (JStr (lit ''*'')) = Inr (w_days w)"
    by (simp add: w w_days_def)
  have l: "is_list x \<Longrightarrow> (\<exists>ds. x = JArr ds \<and> JStr dow \<in> set ds) \<longleftrightarrow> JStr dow \<in> set (elems x)" for x
    by (cases x) (auto simp: is_list_def elems_def)
  have nl: "is_list x \<Longrightarrow> x \<noteq> JStr (lit ''*'')" for x
    by (cases x) (auto simp: is_list_def)
  show ?thesis
    using assms(2,3) d l[of "w_days w"] nl[of "w_days w"]
    unfolding window_turn_def g
    by (auto simp: w w_start_def w_end_def andthen_def day_matches_def minute_matches_def
             split: sum.splits)
qed

lemma windows_loop_any:
  assumes "\<forall>w \<in> set ws. well_formed_window rt w" "dow_to_name (weekday now) = Inr dow"
  shows "windows_loop rt dow (minute_of_day now) ws = Inr (\<exists>w \<in> set ws. window_matches rt w now)"
  using assms
proof (induction ws)
  case Nil
  then show ?case by simp
next
  case (Cons w ws)
  from Cons.prems(1) have wf: "well_formed_window rt w" by simp
  then obtain s e where se: "w_start rt w = Inr s" "w_end rt w = Inr e"
    by (auto simp: well_formed_window_def)
  have t: "window_turn rt dow (minute_of_day now) w = Inr (window_matches rt w now)"
    using window_turn_well_formed[OF wf se] se Cons.prems(2)
    by (simp add: window_matches_def)
  show ?case using Cons t by simp
qed

lemma dow_to_name_total: "d < 7 \<Longrightarrow> \<exists>dow. dow_to_name d = Inr dow"
  by (simp add: dow_to_name_def dow_names_def)

lemmas eval_window = now_in_windows_def night_window_def dow_to_name_def dow_names_def
  andthen_def window_turn_def time_to_minutes_def py_int_text_def ascii_int_def
  digits_val_def lit_def py_strip_def py_isspace_def int_space_def is_digit_def is_list_def
  elems_def

lemma night_window_at:
  assumes "d < 7" "h < 24" "mi < 60"
  shows "now_in_windows rt (JArr [night_window]) \<lparr>weekday = d, hour = h, minute = mi\<rparr>
           = Inr (1320 \<le> int h * 60 + int mi \<or> int h * 60 + int mi \<le> 360)"
  using assms by (simp add: eval_window)

text \<open>
  C3. At every time an empty or absent window list evaluates to true. For a non-empty
  list of well-formed windows the result is true exactly when at least one window of the
  list matches the time. The window from 22:00 to 06:00 matches minute 0, minute 1380
  and minute 300 of any day, and not minute 720.
\<close>

theorem now_in_windows_any:
  "now_in_windows rt (JArr []) now = Inr True
   \<and> now_in_windows rt JNull now = Inr True
   \<and> (weekday now < 7 \<and> ws \<noteq> [] \<and> (\<forall>w \<in> set ws. well_formed_window rt w)
        \<longrightarrow> now_in_windows rt (JArr ws) now = Inr (\<exists>w \<in> set ws. window_matches rt w now))
   \<and> (d < 7 \<longrightarrow>
        now_in_windows rt (JArr [night_window]) \<lparr>weekday = d, hour = 0, minute = 0\<rparr> = Inr True
        \<and> now_in_windows rt (JArr [night_window]) \<lparr>weekday = d, hour = 23, minute = 0\<rparr> = Inr True
        \<and> now_in_windows rt (JArr [night_window]) \<lparr>weekday = d, hour = 5, minute = 0\<rparr> = Inr True
        \<and> now_in_windows rt (JArr [night_window]) \<lparr>weekday = d, hour = 12, minute = 0\<rparr>
            = Inr False)"
proof -
  have 1: "now_in_windows rt (JArr []) now = Inr True" by (simp add: now_in_windows_def)
  have 2: "now_in_windows rt JNull now = Inr True" by (simp add: now_in_windows_def)
  have 3: "now_in_windows rt (JArr ws) now = Inr (\<exists>w \<in> set ws. window_matches rt w now)"
    if "weekday now < 7" "ws \<noteq> []" "\<forall>w \<in> set ws. well_formed_window rt w"
  proof -
    from that(1) obtain dow where dow: "dow_to_name (weekday now) = Inr dow"
      using dow_to_name_total by blast
    show ?thesis
      using windows_loop_any[OF that(3) dow] that(2) dow
      by (simp add: now_in_windows_def andthen_def minute_of_day_def)
  qed
  have 4: "now_in_windows rt (JArr [night_window]) \<lparr>weekday = d, hour = 0, minute = 0\<rparr> = Inr True
        \<and> now_in_windows rt (JArr [night_window]) \<lparr>weekday = d, hour = 23, minute = 0\<rparr> = Inr True
        \<and> now_in_windows rt (JArr [night_window]) \<lparr>weekday = d, hour = 5, minute = 0\<rparr> = Inr True
        \<and> now_in_windows rt (JArr [night_window]) \<lparr>weekday = d, hour = 12, minute = 0\<rparr>
            = Inr False" if "d < 7"
    using that by (simp add: night_window_at)
  show ?thesis using 1 2 3 4 by blast
qed


lemmas eval_wf = well_formed_window_def w_days_def w_start_def w_end_def office_window_def

theorem now_in_windows_any_witness:
  "well_formed_window rt0 office_window \<and> well_formed_window rt0 night_window
   \<and> now_in_windows rt0 (JArr [office_window, night_window])
         \<lparr>weekday = 0, hour = 12, minute = 0\<rparr> = Inr True
   \<and> (\<exists>w \<in> set [office_window, night_window].
         window_matches rt0 w \<lparr>weekday = 0, hour = 12, minute = 0\<rparr>)
   \<and> now_in_windows rt0 (JArr [office_window, night_window])
         \<lparr>weekday = 1, hour = 12, minute = 0\<rparr> = Inr False
   \<and> \<not> (\<exists>w \<in> set [office_window, night_window].
         window_matches rt0 w \<lparr>weekday = 1, hour = 12, minute = 0\<rparr>)"
proof -
  have wf: "well_formed_window rt0 office_window" "well_formed_window rt0 night_window"
    by (simp_all add: eval_wf eval_window)
  have a: "now_in_windows rt0 (JArr [office_window, night_window])
         \<lparr>weekday = 0, hour = 12, minute = 0\<rparr> = Inr True"
    by (simp add: eval_window office_window_def)
  have b: "now_in_windows rt0 (JArr [office_window, night_window])
         \<lparr>weekday = 1, hour = 12, minute = 0\<rparr> = Inr False"
    by (simp add: eval_window office_window_def)
  show ?thesis
    using wf a b
      now_in_windows_any[of rt0 "\<lparr>weekday = 0, hour = 12, minute = 0\<rparr>"
        "[office_window, night_window]" 0]
      now_in_windows_any[of rt0 "\<lparr>weekday = 1, hour = 12, minute = 0\<rparr>"
        "[office_window, night_window]" 0]
    by simp
qed

section \<open>The market data gateway\<close>


lemma rows_loop_total: "\<exists>y t. rows_loop rt rows = (y, t)"
  by (cases "rows_loop rt rows") simp










section \<open>Startup and reload\<close>

text \<open>
  C10, as amended. When the logger has been set up and the loaded configuration lacks
  the token or the chat id, or has the empty string there, or has \<open>null\<close> for the
  token, \<open>run_monitor\<close> logs the error and returns: it never enters its loop and sends
  no request, whatever the answers prepared for the loop.
\<close>

theorem run_monitor_missing_credentials:
  "s_file wd = Inr cfg \<and> s_logger wd = None
   \<and> (missing_or_empty cfg (lit ''telegram_token'') \<or> null_at cfg (lit ''telegram_token'')
        \<or> missing_or_empty cfg (lit ''telegram_chat_id''))
   \<longrightarrow> run_monitor rt wd = (Returned, [Log ERROR MissingTelegramConfig])
       \<and> (\<forall>m. fst (run_monitor rt wd) \<noteq> Looping m)
       \<and> (\<forall>e. fst (run_monitor rt wd) \<noteq> Crashed e)
       \<and> \<not> list_ex is_request (snd (run_monitor rt wd))"
proof (intro impI)
  assume h: "s_file wd = Inr cfg \<and> s_logger wd = None
   \<and> (missing_or_empty cfg (lit ''telegram_token'') \<or> null_at cfg (lit ''telegram_token'')
        \<or> missing_or_empty cfg (lit ''telegram_chat_id''))"
  then obtain kvs where cfg: "cfg = JObj kvs"
    by (cases cfg) (auto simp: missing_or_empty_def null_at_def)
  have tok: "\<not> py_truthy rt (case map_of kvs (lit ''telegram_token'') of None \<Rightarrow> JStr [] | Some v \<Rightarrow> v)
             \<or> py_str rt (case map_of kvs (lit ''telegram_chat_id'') of None \<Rightarrow> JStr [] | Some v \<Rightarrow> v) = []"
    using h by (auto simp: cfg missing_or_empty_def null_at_def split: option.splits)
  have r: "run_monitor rt wd = (Returned, [Log ERROR MissingTelegramConfig])"
    using h tok by (auto simp: run_monitor_def cfg andthen_def split: option.splits)
  show "run_monitor rt wd = (Returned, [Log ERROR MissingTelegramConfig])
       \<and> (\<forall>m. fst (run_monitor rt wd) \<noteq> Looping m)
       \<and> (\<forall>e. fst (run_monitor rt wd) \<noteq> Crashed e)
       \<and> \<not> list_ex is_request (snd (run_monitor rt wd))"
    unfolding r by simp
qed

text \<open>
  C10 as stated fails: the token is missing and the log file cannot be opened. Setting
  up the logger (line 248) comes before the check of the credentials (line 252), so the
  run ends with that exception and logs nothing.
\<close>

theorem run_monitor_logger_failure:
  "missing_or_empty cfg_no_token (lit ''telegram_token'')
   \<and> run_monitor rt0
         \<lparr>s_file = Inr cfg_no_token, s_logger = Some OSError, s_mtime = Inr 1, s_ticks = []\<rparr>
       = (Crashed OSError, [])"
  by (simp add: missing_or_empty_def run_monitor_def cfg_no_token_def lit_def)

text \<open>
  A chat id that is \<open>null\<close> is not taken as missing: \<open>str(None)\<close> is the text
  \<open>None\<close>, which is not empty, and the loop is entered with it.
\<close>

lemma run_monitor_null_chat_id:
  "null_at cfg_null_chat (lit ''telegram_chat_id'')
   \<and> run_monitor rt0
         \<lparr>s_file = Inr cfg_null_chat, s_logger = None, s_mtime = Inr 1, s_ticks = []\<rparr>
       = (Looping \<lparr>token = JStr (lit ''N''), chat_id = lit ''None'', ssl_verify = True,
                    poll_interval = 30, watchers = JArr [], global_windows = JArr [],
                    last_mtime = 1, state_last_closed_ts = Map.empty\<rparr>,
          [Log INFO MonitorStarted])"
  by (simp add: null_at_def run_monitor_def cfg_null_chat_def lit_def andthen_def)

lemma reload_check_same:
  "t_mtime env = Inr (last_mtime m) \<Longrightarrow> reload_check rt env m = (m, [])"
  by (simp add: reload_check_def)

lemma reload_check_mtime_error:
  "t_mtime env = Inl e \<Longrightarrow> reload_check rt env m = (m, [])"
  by (simp add: reload_check_def)

lemma reload_check_load_fails:
  "t_mtime env = Inr mt \<Longrightarrow> mt \<noteq> last_mtime m \<Longrightarrow> t_file env = Inl e \<Longrightarrow>
     reload_check rt env m = (m\<lparr>last_mtime := mt\<rparr>, [])"
  by (simp add: reload_check_def)

lemma reload_check_loads:
  assumes "t_mtime env = Inr mt" "mt \<noteq> last_mtime m" "t_file env = Inr cfg"
    "file_config rt cfg = Inr v"
  shows "reload_check rt env m =
           (m\<lparr>last_mtime := mt, token := fst v, chat_id := fst (snd v),
               ssl_verify := fst (snd (snd v)), poll_interval := fst (snd (snd (snd v))),
               watchers := fst (snd (snd (snd (snd v)))),
               global_windows := snd (snd (snd (snd (snd v))))\<rparr>,
            [Log INFO ConfigReloaded])"
proof -
  from assms(4) obtain kvs where cfg: "cfg = JObj kvs"
    by (cases cfg) (auto simp: file_config_def andthen_def)
  show ?thesis
    using assms
    by (auto simp: reload_check_def file_config_def cfg andthen_def Let_def split: sum.splits)
qed

lemma reload_check_keeps_dedup:
  "state_last_closed_ts (fst (reload_check rt env m)) = state_last_closed_ts m"
  by (auto simp: reload_check_def Let_def split: sum.splits)

lemma reload_check_events: "set (snd (reload_check rt env m)) \<subseteq> {Log INFO ConfigReloaded}"
  by (auto simp: reload_check_def Let_def split: sum.splits)

lemma tick_config:
  "config_of (fst (snd (tick rt env m))) = config_of (fst (reload_check rt env m))
   \<and> last_mtime (fst (snd (tick rt env m))) = last_mtime (fst (reload_check rt env m))"
  by (auto simp: tick_def Let_def config_of_def split: sum.splits)


theorem run_monitor_missing_credentials_witness:
  "missing_or_empty cfg_no_token (lit ''telegram_token'')
   \<and> run_monitor rt0
         \<lparr>s_file = Inr cfg_no_token, s_logger = None, s_mtime = Inr 1,
            s_ticks = [tenv_of (Inr 1) (Inr cfg_no_token) quiet]\<rparr>
       = (Returned, [Log ERROR MissingTelegramConfig])
   \<and> null_at cfg_null_token (lit ''telegram_token'')
   \<and> run_monitor rt0
         \<lparr>s_file = Inr cfg_null_token, s_logger = None, s_mtime = Inr 1,
            s_ticks = [tenv_of (Inr 1) (Inr cfg_null_token) quiet]\<rparr>
       = (Returned, [Log ERROR MissingTelegramConfig])"
proof -
  have a: "missing_or_empty cfg_no_token (lit ''telegram_token'')"
    by (simp add: missing_or_empty_def cfg_no_token_def lit_def)
  have b: "null_at cfg_null_token (lit ''telegram_token'')"
    by (simp add: null_at_def cfg_null_token_def lit_def)
  show ?thesis
    using a b
      run_monitor_missing_credentials
        [of "\<lparr>s_file = Inr cfg_no_token, s_logger = None, s_mtime = Inr 1,
              s_ticks = [tenv_of (Inr 1) (Inr cfg_no_token) quiet]\<rparr>" cfg_no_token rt0]
      run_monitor_missing_credentials
        [of "\<lparr>s_file = Inr cfg_null_token, s_logger = None, s_mtime = Inr 1,
              s_ticks = [tenv_of (Inr 1) (Inr cfg_null_token) quiet]\<rparr>" cfg_null_token rt0]
    by simp
qed

lemma run_ticks_same_mtime:
  assumes "\<forall>x \<in> set envs. t_mtime x = Inr (last_mtime m) \<or> (\<exists>e. t_mtime x = Inl e)"
  shows "config_of (fst (snd (run_ticks rt envs m))) = config_of m
         \<and> last_mtime (fst (snd (run_ticks rt envs m))) = last_mtime m"
  using assms
proof (induction envs arbitrary: m)
  case Nil
  then show ?case by simp
next
  case (Cons env envs)
  have r: "reload_check rt env m = (m, [])"
    using Cons.prems reload_check_same[of env m rt] reload_check_mtime_error[of env _ rt m]
    by auto
  obtain x m1 tr where t: "tick rt env m = (x, m1, tr)" by (cases "tick rt env m") auto
  have c: "config_of m1 = config_of m \<and> last_mtime m1 = last_mtime m"
    using tick_config[of rt env m] r t by simp
  show ?case
  proof (cases x)
    case None
    have "config_of (fst (snd (run_ticks rt envs m1))) = config_of m1
         \<and> last_mtime (fst (snd (run_ticks rt envs m1))) = last_mtime m1"
      using Cons.IH[of m1] Cons.prems c by simp
    then show ?thesis using t None c by (simp add: Let_def)
  next
    case (Some e)
    then show ?thesis using t c by simp
  qed
qed

text \<open>
  C7, as amended. When the modification time read in a turn equals the recorded one,
  nothing is reloaded and the active configuration is the same after the turn. When it
  differs and the file loads and its values convert, the six values of the file replace
  the active ones together, the dedup state is kept and the reload is logged.
\<close>

theorem reload_check_by_mtime:
  "(t_mtime env = Inr (last_mtime m) \<longrightarrow>
      reload_check rt env m = (m, [])
      \<and> config_of (fst (snd (tick rt env m))) = config_of m)
   \<and> (t_mtime env = Inr mt \<and> mt \<noteq> last_mtime m \<and> t_file env = Inr cfg
        \<and> file_config rt cfg = Inr v \<longrightarrow>
      config_of (fst (reload_check rt env m)) = v
      \<and> last_mtime (fst (reload_check rt env m)) = mt
      \<and> state_last_closed_ts (fst (reload_check rt env m)) = state_last_closed_ts m
      \<and> snd (reload_check rt env m) = [Log INFO ConfigReloaded]
      \<and> config_of (fst (snd (tick rt env m))) = v)"
proof -
  have 1: "reload_check rt env m = (m, [])
      \<and> config_of (fst (snd (tick rt env m))) = config_of m"
    if "t_mtime env = Inr (last_mtime m)"
    using reload_check_same[OF that, of rt] tick_config[of rt env m] by simp
  have 2: "config_of (fst (reload_check rt env m)) = v
      \<and> last_mtime (fst (reload_check rt env m)) = mt
      \<and> state_last_closed_ts (fst (reload_check rt env m)) = state_last_closed_ts m
      \<and> snd (reload_check rt env m) = [Log INFO ConfigReloaded]
      \<and> config_of (fst (snd (tick rt env m))) = v"
    if h: "t_mtime env = Inr mt" "mt \<noteq> last_mtime m" "t_file env = Inr cfg"
       "file_config rt cfg = Inr v"
    using reload_check_loads[OF h] tick_config[of rt env m]
    by (simp add: config_of_def)
  show ?thesis using 1 2 by blast
qed

lemma file_config_b: "file_config rt cfg_b = Inr (JStr (lit ''N''), lit ''7'', True, 9, JArr [], JArr [])"
  by (simp add: file_config_def cfg_b_def andthen_def lit_def py_int_text_def ascii_int_def
        digits_val_def int_space_def is_digit_def)

theorem reload_check_by_mtime_witness:
  "config_of (fst (snd (tick rt0 (tenv_of (Inr 1) (Inr cfg_b) quiet) mon_a))) = config_of mon_a
   \<and> file_config rt0 cfg_b = Inr (JStr (lit ''N''), lit ''7'', True, 9, JArr [], JArr [])
   \<and> config_of (fst (snd (tick rt0 (tenv_of (Inr 2) (Inr cfg_b) quiet) mon_a)))
       = (JStr (lit ''N''), lit ''7'', True, 9, JArr [], JArr [])"
  using reload_check_by_mtime[of "tenv_of (Inr 1) (Inr cfg_b) quiet" mon_a rt0 1 cfg_b
          "(JStr (lit ''N''), lit ''7'', True, 9, JArr [], JArr [])"]
        reload_check_by_mtime[of "tenv_of (Inr 2) (Inr cfg_b) quiet" mon_a rt0 2 cfg_b
          "(JStr (lit ''N''), lit ''7'', True, 9, JArr [], JArr [])"]
        file_config_b[of rt0]
  by (simp add: tenv_of_def mon_a_def)

text \<open>
  C7 as stated fails: the modification time has changed, the file does not load, and
  the configuration is not reloaded.
\<close>

theorem reload_check_changed_mtime_not_loaded:
  "t_mtime (tenv_of (Inr 2) (Inl JSONDecodeError) quiet) = Inr 2
   \<and> last_mtime mon_a = 1
   \<and> config_of (fst (reload_check rt0 (tenv_of (Inr 2) (Inl JSONDecodeError) quiet) mon_a))
       = config_of mon_a
   \<and> snd (reload_check rt0 (tenv_of (Inr 2) (Inl JSONDecodeError) quiet) mon_a) = []"
  by (simp add: reload_check_def tenv_of_def mon_a_def config_of_def)

text \<open>
  A file that loads but whose poll interval does not convert: the exception is
  swallowed after the token has been replaced and before the watchers are.
\<close>

lemma reload_check_partial:
  "token (fst (reload_check rt0 (tenv_of (Inr 2) (Inr cfg_torn) quiet) mon_a)) = JStr (lit ''N'')
   \<and> watchers (fst (reload_check rt0 (tenv_of (Inr 2) (Inr cfg_torn) quiet) mon_a))
       = JArr [watcher_btc]
   \<and> snd (reload_check rt0 (tenv_of (Inr 2) (Inr cfg_torn) quiet) mon_a) = []"
  by (simp add: reload_check_def tenv_of_def mon_a_def cfg_torn_def andthen_def lit_def
        py_int_text_def ascii_int_def int_space_def is_digit_def)

text \<open>
  The part of C8 that the code keeps. When the modification time has changed and
  \<open>load_config\<close> raises, the reload check ends silently with the new modification
  time recorded and nothing else changed: the active configuration after the turn is
  the previous one, and it stays so through every later turn in which the modification
  time is the same or cannot be read, whatever the file then holds.
\<close>

theorem reload_failure_keeps_config:
  "t_mtime env = Inr mt \<and> mt \<noteq> last_mtime m \<and> t_file env = Inl e \<longrightarrow>
     reload_check rt env m = (m\<lparr>last_mtime := mt\<rparr>, [])
     \<and> config_of (fst (snd (tick rt env m))) = config_of m
     \<and> last_mtime (fst (snd (tick rt env m))) = mt
     \<and> (\<forall>envs. (\<forall>x \<in> set envs. t_mtime x = Inr mt \<or> (\<exists>e'. t_mtime x = Inl e')) \<longrightarrow>
           config_of (fst (snd (run_ticks rt envs (fst (snd (tick rt env m)))))) = config_of m
           \<and> last_mtime (fst (snd (run_ticks rt envs (fst (snd (tick rt env m)))))) = mt)"
proof (intro impI)
  assume h: "t_mtime env = Inr mt \<and> mt \<noteq> last_mtime m \<and> t_file env = Inl e"
  have r: "reload_check rt env m = (m\<lparr>last_mtime := mt\<rparr>, [])"
    using h reload_check_load_fails by blast
  have c: "config_of (fst (snd (tick rt env m))) = config_of m"
       "last_mtime (fst (snd (tick rt env m))) = mt"
    using tick_config[of rt env m] r by (simp_all add: config_of_def)
  have l: "config_of (fst (snd (run_ticks rt envs (fst (snd (tick rt env m)))))) = config_of m
           \<and> last_mtime (fst (snd (run_ticks rt envs (fst (snd (tick rt env m)))))) = mt"
    if "\<forall>x \<in> set envs. t_mtime x = Inr mt \<or> (\<exists>e'. t_mtime x = Inl e')" for envs
    using run_ticks_same_mtime[of envs "fst (snd (tick rt env m))" rt] that c by simp
  show "reload_check rt env m = (m\<lparr>last_mtime := mt\<rparr>, [])
     \<and> config_of (fst (snd (tick rt env m))) = config_of m
     \<and> last_mtime (fst (snd (tick rt env m))) = mt
     \<and> (\<forall>envs. (\<forall>x \<in> set envs. t_mtime x = Inr mt \<or> (\<exists>e'. t_mtime x = Inl e')) \<longrightarrow>
           config_of (fst (snd (run_ticks rt envs (fst (snd (tick rt env m)))))) = config_of m
           \<and> last_mtime (fst (snd (run_ticks rt envs (fst (snd (tick rt env m)))))) = mt)"
    using r c l by blast
qed

theorem reload_failure_keeps_config_witness:
  "config_of (fst (snd (tick rt0 (tenv_of (Inr 2) (Inl JSONDecodeError) quiet) mon_a)))
     = config_of mon_a
   \<and> last_mtime (fst (snd (tick rt0 (tenv_of (Inr 2) (Inl JSONDecodeError) quiet) mon_a))) = 2
   \<and> config_of (fst (snd (run_ticks rt0
         [tenv_of (Inr 2) (Inr cfg_b) quiet, tenv_of (Inl OSError) (Inr cfg_b) quiet]
         (fst (snd (tick rt0 (tenv_of (Inr 2) (Inl JSONDecodeError) quiet) mon_a))))))
     = config_of mon_a"
proof -
  let ?env = "tenv_of (Inr 2) (Inl JSONDecodeError) quiet"
  let ?envs = "[tenv_of (Inr 2) (Inr cfg_b) quiet, tenv_of (Inl OSError) (Inr cfg_b) quiet]"
  have h: "t_mtime ?env = Inr 2 \<and> 2 \<noteq> last_mtime mon_a \<and> t_file ?env = Inl JSONDecodeError"
    by (simp add: tenv_of_def mon_a_def)
  have a: "\<forall>x \<in> set ?envs. t_mtime x = Inr 2 \<or> (\<exists>e'. t_mtime x = Inl e')"
    by (simp add: tenv_of_def)
  show ?thesis
    using h a reload_failure_keeps_config[of ?env 2 mon_a JSONDecodeError rt0]
    by blast
qed

text \<open>
  C8 fails on the code. The file changes to one that loads but whose poll interval is
  the text \<open>soon\<close>: the reload raises \<open>ValueError\<close> at line 273, after lines 270-272
  have assigned the token, the chat id and the ssl flag. The exception is swallowed,
  nothing is logged, and the turn goes on with the new token and an empty chat id
  beside the previous poll interval and watchers; the new modification time is recorded,
  so later turns with the same modification time keep this mixture.
\<close>

theorem reload_failure_replaces_credentials:
  "t_mtime (tenv_of (Inr 2) (Inr cfg_torn) quiet) = Inr 2
   \<and> last_mtime mon_a = 1
   \<and> file_config rt0 cfg_torn = Inl ValueError
   \<and> config_of mon_a
       = (JStr (lit ''T''), lit ''42'', True, 5, JArr [watcher_btc], JArr [])
   \<and> reload_check rt0 (tenv_of (Inr 2) (Inr cfg_torn) quiet) mon_a
       = (mon_a\<lparr>last_mtime := 2, token := JStr (lit ''N''), chat_id := []\<rparr>, [])
   \<and> config_of (fst (snd (tick rt0 (tenv_of (Inr 2) (Inr cfg_torn) quiet) mon_a)))
       = (JStr (lit ''N''), [], True, 5, JArr [watcher_btc], JArr [])
   \<and> config_of (fst (snd (run_ticks rt0
         [tenv_of (Inr 2) (Inr cfg_torn) quiet, tenv_of (Inr 2) (Inr cfg_torn) quiet] mon_a)))
       = (JStr (lit ''N''), [], True, 5, JArr [watcher_btc], JArr [])"
proof -
  let ?env = "tenv_of (Inr 2) (Inr cfg_torn) quiet"
  let ?m = "mon_a\<lparr>last_mtime := 2, token := JStr (lit ''N''), chat_id := []\<rparr>"
  have f: "file_config rt0 cfg_torn = Inl ValueError"
    by (simp add: file_config_def cfg_torn_def andthen_def lit_def rt0_def
          py_int_text_def ascii_int_def int_space_def is_digit_def)
  have r: "reload_check rt0 ?env mon_a = (?m, [])"
    by (simp add: reload_check_def tenv_of_def mon_a_def cfg_torn_def andthen_def lit_def
          rt0_def py_int_text_def ascii_int_def int_space_def is_digit_def)
  have c: "config_of ?m = (JStr (lit ''N''), [], True, 5, JArr [watcher_btc], JArr [])"
    by (simp add: config_of_def mon_a_def)
  have t: "config_of (fst (snd (tick rt0 ?env mon_a))) = config_of ?m"
          "last_mtime (fst (snd (tick rt0 ?env mon_a))) = 2"
    using tick_config[of rt0 ?env mon_a] r by simp_all
  have x: "fst (tick rt0 ?env mon_a) = None \<or> (\<exists>e. fst (tick rt0 ?env mon_a) = Some e)"
    by auto
  have l: "config_of (fst (snd (run_ticks rt0 [?env] (fst (snd (tick rt0 ?env mon_a))))))
             = config_of (fst (snd (tick rt0 ?env mon_a)))"
    using run_ticks_same_mtime[of "[?env]" "fst (snd (tick rt0 ?env mon_a))" rt0] t(2)
    by (simp add: tenv_of_def)
  have u: "config_of (fst (snd (run_ticks rt0 [?env, ?env] mon_a))) = config_of ?m"
  proof (cases "tick rt0 ?env mon_a")
    case (fields a m1 tr)
    show ?thesis
    proof (cases a)
      case None
      then show ?thesis using fields l t by (simp add: Let_def)
    next
      case (Some e)
      then show ?thesis using fields t by simp
    qed
  qed
  show ?thesis
    using f r c t(1) u by (simp add: tenv_of_def mon_a_def config_of_def)
qed

section \<open>Window gating\<close>

lemma tick_outside:
  assumes "now_in_windows rt (global_windows (fst (reload_check rt env m))) (t_clock env) = Inr False"
  shows "tick rt env m =
           (py_sleep (poll_interval (fst (reload_check rt env m))), fst (reload_check rt env m),
            snd (reload_check rt env m) @ [Sleep (poll_interval (fst (reload_check rt env m)))])"
  using assms by (simp add: tick_def Let_def)

lemma reload_no_request: "\<not> list_ex is_request (snd (reload_check rt env m))"
  using reload_check_events[of rt env m] by (auto simp: list_ex_iff)

lemma watcher_target_outside:
  assumes "py_get w (lit ''active_windows'') JNull = Inr ww" "py_truthy rt ww"
    "now_in_windows rt ww (w_clock we) = Inr False"
  shows "watcher_target rt we w =
           (case andthen (py_get w (lit ''bar'') (JStr (lit ''12H''))) as_str of
              Inl e \<Rightarrow> Inl e | Inr b \<Rightarrow> Inr None)"
proof -
  from assms(1) obtain kvs where w: "w = JObj kvs" by (cases w) auto
  show ?thesis using assms by (auto simp: watcher_target_def w andthen_def split: sum.splits)
qed

text \<open>
  C4. In a turn whose clock reading is outside the global windows (those in force after
  the reload check of the turn), the loop only sleeps for the poll interval: the events
  of the turn are those of the reload check and the sleep, none of them a request, and
  the dedup state is untouched. A watcher whose own window list is non-empty and excludes
  the clock reading is left with the dedup state unchanged and without any request; when
  its bar is a string, without any event at all.
\<close>

theorem window_gates:
  "(now_in_windows rt (global_windows (fst (reload_check rt env m))) (t_clock env) = Inr False
      \<longrightarrow>
      tick rt env m =
        (py_sleep (poll_interval (fst (reload_check rt env m))), fst (reload_check rt env m),
         snd (reload_check rt env m) @ [Sleep (poll_interval (fst (reload_check rt env m)))])
      \<and> state_last_closed_ts (fst (snd (tick rt env m))) = state_last_closed_ts m
      \<and> \<not> list_ex is_request (snd (snd (tick rt env m))))
   \<and> (py_get w (lit ''active_windows'') JNull = Inr ww \<and> py_truthy rt ww
        \<and> now_in_windows rt ww (w_clock we) = Inr False \<longrightarrow>
      fst (process_watcher rt we tok chat ssl st w) = st
      \<and> \<not> list_ex is_request (snd (process_watcher rt we tok chat ssl st w))
      \<and> (\<forall>b. andthen (py_get w (lit ''bar'') (JStr (lit ''12H''))) as_str = Inr b \<longrightarrow>
            process_watcher rt we tok chat ssl st w = (st, [])))"
proof -
  have 1: "tick rt env m =
        (py_sleep (poll_interval (fst (reload_check rt env m))), fst (reload_check rt env m),
         snd (reload_check rt env m) @ [Sleep (poll_interval (fst (reload_check rt env m)))])
      \<and> state_last_closed_ts (fst (snd (tick rt env m))) = state_last_closed_ts m
      \<and> \<not> list_ex is_request (snd (snd (tick rt env m)))"
    if h: "now_in_windows rt (global_windows (fst (reload_check rt env m))) (t_clock env) = Inr False"
    using tick_outside[OF h] reload_check_keeps_dedup[of rt env m] reload_no_request[of rt env m]
    by simp
  have 2: "fst (process_watcher rt we tok chat ssl st w) = st
      \<and> \<not> list_ex is_request (snd (process_watcher rt we tok chat ssl st w))
      \<and> (\<forall>b. andthen (py_get w (lit ''bar'') (JStr (lit ''12H''))) as_str = Inr b \<longrightarrow>
            process_watcher rt we tok chat ssl st w = (st, []))"
    if h: "py_get w (lit ''active_windows'') JNull = Inr ww" "py_truthy rt ww"
        "now_in_windows rt ww (w_clock we) = Inr False"
    using watcher_target_outside[OF h]
    by (auto simp: process_watcher_def watcher_body_def split: sum.splits)
  show ?thesis using 1 2 by blast
qed

theorem window_gates_witness:
  "tick rt0 (tenv_of (Inr 1) (Inr cfg_b) (wenv_of (okx_reply rows_a) tg_ok)) mon_night
     = (None, mon_night, [Sleep 5])
   \<and> process_watcher rt0 (wenv_of (okx_reply rows_a) tg_ok) (JStr (lit ''T'')) (lit ''42'') True
       Map.empty watcher_night = (Map.empty, [])"
proof -
  let ?env = "tenv_of (Inr 1) (Inr cfg_b) (wenv_of (okx_reply rows_a) tg_ok)"
  have r: "reload_check rt0 ?env mon_night = (mon_night, [])"
    by (simp add: reload_check_def tenv_of_def mon_night_def mon_a_def)
  have g: "now_in_windows rt0 (JArr [night_window]) noon = Inr False"
    by (simp add: eval_window noon_def)
  have g1: "now_in_windows rt0 (global_windows (fst (reload_check rt0 ?env mon_night)))
              (t_clock ?env) = Inr False"
    using g by (simp add: r) (simp add: mon_night_def tenv_of_def)
  have s: "py_sleep 5 = None" by (simp add: py_sleep_def)
  have p: "poll_interval mon_night = 5" by (simp add: mon_night_def mon_a_def)
  have a: "py_get watcher_night (lit ''active_windows'') JNull = Inr (JArr [night_window])"
    by (simp add: watcher_night_def lit_def)
  have b: "andthen (py_get watcher_night (lit ''bar'') (JStr (lit ''12H''))) as_str
             = Inr (lit ''1h'')"
    by (simp add: watcher_night_def lit_def andthen_def as_str_def)
  have c: "now_in_windows rt0 (JArr [night_window]) (w_clock (wenv_of (okx_reply rows_a) tg_ok))
             = Inr False"
    using g by (simp add: wenv_of_def)
  show ?thesis
    using g1 r s p a b c
      window_gates[of rt0 ?env mon_night watcher_night "JArr [night_window]"
        "wenv_of (okx_reply rows_a) tg_ok" "JStr (lit ''T'')" "lit ''42''" True Map.empty]
    by simp
qed

section \<open>Alert deduplication\<close>

subsection \<open>Events that are not alerts\<close>

lemma alerts_for_append: "alerts_for k T (a @ b) = alerts_for k T a + alerts_for k T b"
  by (simp add: alerts_for_def)

lemma http_get_events_no_alert: "alerts_for k T (http_get_events url params ssl reply) = 0"
  by (simp add: alerts_for_def http_get_events_def split: sum.splits exn.splits)

lemma send_attempts_no_alert:
  "alerts_for k T (snd (send_attempts rt replies url payload ssl mx j n)) = 0"
proof (induction n arbitrary: j)
  case 0
  then show ?case by (simp add: alerts_for_def)
next
  case (Suc n)
  have h: "alerts_for k T (http_get_events url payload ssl (replies j)) = 0"
    by (rule http_get_events_no_alert)
  show ?case
    using Suc[of "Suc j"] h
    by (auto simp: Let_def alerts_for_def split: sum.splits prod.splits)
qed

lemma send_telegram_no_alert:
  "alerts_for k T (snd (send_telegram rt replies tok chat text ssl)) = 0"
  by (simp add: send_telegram_def send_attempts_no_alert)

lemma parse_row_no_alert: "alerts_for k T (snd (parse_row rt r)) = 0"
  by (simp add: parse_row_def alerts_for_def split: sum.splits)

lemma rows_loop_no_alert: "alerts_for k T (snd (rows_loop rt rows)) = 0"
proof (induction rows)
  case Nil
  then show ?case by (simp add: alerts_for_def)
next
  case (Cons r rows)
  then show ?case
    using parse_row_no_alert[of k T rt r]
    by (auto simp: alerts_for_append split: prod.splits sum.splits)
qed

lemma rows_loop_no_alert_pair: "rows_loop rt rows = (y, tr) \<Longrightarrow> alerts_for k T tr = 0"
  using rows_loop_no_alert[of k T rt rows] by simp

lemma fetch_no_alert:
  "alerts_for k T (snd (fetch_closed_candles rt reply inst_id bar limit ssl)) = 0"
proof -
  have l: "alerts_for k T [Log lv msg] = 0" for lv msg by (simp add: alerts_for_def)
  show ?thesis
    by (auto simp: fetch_closed_candles_def Let_def alerts_for_append l
          http_get_events_no_alert
          dest: rows_loop_no_alert_pair split: sum.splits prod.splits)
qed

subsection \<open>One watcher\<close>

lemma fetch_result_fetched:
  "fst (fetch_closed_candles rt reply inst_id bar limit ssl) = fetched rt reply"
  by (auto simp: fetched_def fetch_closed_candles_def Let_def split: sum.splits prod.splits)

lemma pattern_signal_nonempty: "pattern_signal xs \<noteq> Some []"
  by (simp add: pattern_signal_def Let_def signals_distinct)

lemma watcher_signal_state:
  "fst (watcher_signal rt we tok chat ssl st inst_id bar cs) =
     (if 3 \<le> length cs then st((inst_id, bar) \<mapsto> k_ts (cs ! 0)) else st)"
proof -
  have "st((inst_id, bar) \<mapsto> k_ts (cs ! 0)) = st" if "st (inst_id, bar) = Some (k_ts (cs ! 0))"
    using that by (rule map_upd_triv)
  then show ?thesis by (auto simp: watcher_signal_def Let_def)
qed

lemma watcher_signal_alerts:
  "alerts_for k T (snd (watcher_signal rt we tok chat ssl st inst_id bar cs)) =
     (if 3 \<le> length cs \<and> st (inst_id, bar) \<noteq> Some (k_ts (cs ! 0))
         \<and> pattern_signal [cs ! 2, cs ! 1, cs ! 0] \<noteq> None
         \<and> (inst_id, bar) = k \<and> k_ts (cs ! 0) = T
      then 1 else 0)"
proof -
  have s: "alerts_for k T (snd (send_telegram rt replies tok chat msg ssl)) = 0" for replies msg
    by (rule send_telegram_no_alert)
  have f: "filter (is_alert k T) (snd (send_telegram rt replies tok chat msg ssl)) = []"
    for replies msg
    using s[of replies msg] by (simp add: alerts_for_def)
  show ?thesis
    by (auto simp: watcher_signal_def Let_def alerts_for_def f pattern_signal_nonempty)
qed

lemma watcher_signal_dedup:
  "3 \<le> length cs \<Longrightarrow> st (inst_id, bar) = Some (k_ts (cs ! 0)) \<Longrightarrow>
     watcher_signal rt we tok chat ssl st inst_id bar cs = (st, [])"
  by (simp add: watcher_signal_def)

lemma process_watcher_observed:
  "fst (process_watcher rt we tok chat ssl st w) =
     (case observed rt we w of None \<Rightarrow> st | Some (key, ts) \<Rightarrow> st(key \<mapsto> ts))
   \<and> alerts_for k T (snd (process_watcher rt we tok chat ssl st w)) \<le>
     (case observed rt we w of
        None \<Rightarrow> 0
      | Some (key, ts) \<Rightarrow> if key = k \<and> ts = T \<and> st k \<noteq> Some T then 1 else 0)"
proof (cases "watcher_target rt we w")
  case (Inl e)
  then show ?thesis
    by (simp add: process_watcher_def watcher_body_def observed_def alerts_for_def)
next
  case (Inr t)
  show ?thesis
  proof (cases t)
    case None
    then show ?thesis
      using Inr by (simp add: process_watcher_def watcher_body_def observed_def alerts_for_def)
  next
    case (Some key)
    obtain inst_id bar where key: "key = (inst_id, bar)" by (cases key)
    obtain y tr where f: "fetch_closed_candles rt (w_candles we) inst_id bar 10 ssl = (y, tr)"
      by (cases "fetch_closed_candles rt (w_candles we) inst_id bar 10 ssl")
    have y: "fetched rt (w_candles we) = y"
      using fetch_result_fetched[of rt "w_candles we" inst_id bar 10 ssl] f by simp
    have tr: "alerts_for k T tr = 0"
      using fetch_no_alert[of k T rt "w_candles we" inst_id bar 10 ssl] f by simp
    show ?thesis
    proof (cases y)
      case (Inl e)
      then show ?thesis
        using Inr Some key f y tr
        by (simp add: process_watcher_def watcher_body_def observed_def alerts_for_append
              alerts_for_def)
    next
      case (Inr cs)
      have a: "alerts_for k T (snd (watcher_signal rt we tok chat ssl st inst_id bar cs)) \<le>
                 (if 3 \<le> length cs \<and> (inst_id, bar) = k \<and> k_ts (cs ! 0) = T \<and> st k \<noteq> Some T
                  then 1 else 0)"
        unfolding watcher_signal_alerts by auto
      show ?thesis
        using \<open>watcher_target rt we w = Inr t\<close> Some key f y tr Inr a
          watcher_signal_state[of rt we tok chat ssl st inst_id bar cs]
        by (auto simp: process_watcher_def watcher_body_def observed_def alerts_for_append
              Let_def)
    qed
  qed
qed

subsection \<open>The loop, a turn, a run\<close>

lemma last_entry_Cons: "last_entry prev (x # xs) = last_entry (Some x) xs"
  by (simp add: last_entry_def)

lemma last_entry_append: "last_entry prev (xs @ ys) = last_entry (last_entry prev xs) ys"
  by (simp add: last_entry_def)

lemma entries_into_append:
  "entries_into T prev (xs @ ys) = entries_into T prev xs + entries_into T (last_entry prev xs) ys"
proof (induction xs arbitrary: prev)
  case Nil
  then show ?case by (simp add: last_entry_def)
next
  case (Cons x xs)
  then show ?case by (simp add: last_entry_Cons)
qed

lemma key_obs_append: "key_obs k (a @ b) = key_obs k a @ key_obs k b"
  by (simp add: key_obs_def)

lemma process_watcher_entries:
  "fst (process_watcher rt we tok chat ssl st w) k =
     last_entry (st k) (key_obs k (case observed rt we w of None \<Rightarrow> [] | Some x \<Rightarrow> [x]))
   \<and> alerts_for k T (snd (process_watcher rt we tok chat ssl st w)) \<le>
     entries_into T (st k) (key_obs k (case observed rt we w of None \<Rightarrow> [] | Some x \<Rightarrow> [x]))"
  using process_watcher_observed[of rt we tok chat ssl st w k T]
  by (auto simp: key_obs_def last_entry_def split: option.splits)

lemma watchers_loop_entries:
  "fst (watchers_loop rt envs i tok chat ssl st ws) k =
     last_entry (st k) (key_obs k (loop_observed rt envs i ws))
   \<and> alerts_for k T (snd (watchers_loop rt envs i tok chat ssl st ws)) \<le>
     entries_into T (st k) (key_obs k (loop_observed rt envs i ws))"
proof (induction ws arbitrary: i st)
  case Nil
  then show ?case by (simp add: key_obs_def last_entry_def alerts_for_def)
next
  case (Cons w ws)
  let ?o = "case observed rt (envs i) w of None \<Rightarrow> [] | Some x \<Rightarrow> [x]"
  let ?st1 = "fst (process_watcher rt (envs i) tok chat ssl st w)"
  have p: "?st1 k = last_entry (st k) (key_obs k ?o)"
    "alerts_for k T (snd (process_watcher rt (envs i) tok chat ssl st w)) \<le>
       entries_into T (st k) (key_obs k ?o)"
    using process_watcher_entries[of rt "envs i" tok chat ssl st w k T] by simp_all
  have l: "fst (watchers_loop rt envs (Suc i) tok chat ssl ?st1 ws) k =
             last_entry (?st1 k) (key_obs k (loop_observed rt envs (Suc i) ws))"
    "alerts_for k T (snd (watchers_loop rt envs (Suc i) tok chat ssl ?st1 ws)) \<le>
       entries_into T (?st1 k) (key_obs k (loop_observed rt envs (Suc i) ws))"
    using Cons[of "Suc i" ?st1] by simp_all
  show ?case
    using p l
    by (simp add: Let_def alerts_for_append key_obs_append entries_into_append
          last_entry_append)
qed

lemma reload_no_alert: "alerts_for k T (snd (reload_check rt env m)) = 0"
proof -
  have "\<forall>e \<in> set (snd (reload_check rt env m)). \<not> is_alert k T e"
    using reload_check_events[of rt env m] by auto
  then show ?thesis by (simp add: alerts_for_def filter_empty_conv)
qed

lemma tick_entries:
  "state_last_closed_ts (fst (snd (tick rt env m))) k =
     last_entry (state_last_closed_ts m k) (key_obs k (tick_observed rt env m))
   \<and> alerts_for k T (snd (snd (tick rt env m))) \<le>
     entries_into T (state_last_closed_ts m k) (key_obs k (tick_observed rt env m))"
proof -
  let ?m1 = "fst (reload_check rt env m)"
  have d: "state_last_closed_ts ?m1 = state_last_closed_ts m"
    by (rule reload_check_keeps_dedup)
  have r: "alerts_for k T (snd (reload_check rt env m)) = 0" by (rule reload_no_alert)
  have s: "alerts_for k T [Sleep n] = 0" for n by (simp add: alerts_for_def)
  have e: "last_entry p (key_obs k []) = p" "entries_into T p (key_obs k []) = 0" for p
    by (simp_all add: last_entry_def key_obs_def)
  show ?thesis
  proof (cases "now_in_windows rt (global_windows ?m1) (t_clock env)")
    case (Inl x)
    then show ?thesis using d r e by (simp add: tick_def tick_observed_def Let_def)
  next
    case (Inr inside)
    show ?thesis
    proof (cases inside)
      case False
      then show ?thesis
        using Inr d r s e by (simp add: tick_def tick_observed_def Let_def alerts_for_append)
    next
      case True
      show ?thesis
      proof (cases "py_iter (watchers ?m1)")
        case (Inl x)
        then show ?thesis
          using Inr True d r e by (simp add: tick_def tick_observed_def Let_def)
      next
        case (Inr ws)
        have l: "fst (watchers_loop rt (t_watch env) 0 (token ?m1) (chat_id ?m1) (ssl_verify ?m1)
                   (state_last_closed_ts m) ws) k =
                 last_entry (state_last_closed_ts m k)
                   (key_obs k (loop_observed rt (t_watch env) 0 ws))"
          "alerts_for k T (snd (watchers_loop rt (t_watch env) 0 (token ?m1) (chat_id ?m1)
                   (ssl_verify ?m1) (state_last_closed_ts m) ws)) \<le>
             entries_into T (state_last_closed_ts m k)
               (key_obs k (loop_observed rt (t_watch env) 0 ws))"
          using watchers_loop_entries[of rt "t_watch env" 0 "token ?m1" "chat_id ?m1"
                  "ssl_verify ?m1" "state_last_closed_ts m" ws k T]
          by simp_all
        show ?thesis
          using \<open>now_in_windows rt (global_windows ?m1) (t_clock env) = Inr inside\<close> True Inr
            d r s l
          by (simp add: tick_def tick_observed_def Let_def alerts_for_append)
      qed
    qed
  qed
qed

lemma run_ticks_entries:
  "state_last_closed_ts (fst (snd (run_ticks rt envs m))) k =
     last_entry (state_last_closed_ts m k) (key_obs k (run_observed rt envs m))
   \<and> alerts_for k T (snd (snd (run_ticks rt envs m))) \<le>
     entries_into T (state_last_closed_ts m k) (key_obs k (run_observed rt envs m))"
proof (induction envs arbitrary: m)
  case Nil
  then show ?case by (simp add: key_obs_def last_entry_def alerts_for_def)
next
  case (Cons env envs)
  obtain x m1 tr where t: "tick rt env m = (x, m1, tr)" by (cases "tick rt env m") auto
  have a: "state_last_closed_ts m1 k =
             last_entry (state_last_closed_ts m k) (key_obs k (tick_observed rt env m))"
    "alerts_for k T tr \<le>
       entries_into T (state_last_closed_ts m k) (key_obs k (tick_observed rt env m))"
    using tick_entries[of rt env m k T] t by simp_all
  show ?case
  proof (cases x)
    case None
    have b: "state_last_closed_ts (fst (snd (run_ticks rt envs m1))) k =
               last_entry (state_last_closed_ts m1 k) (key_obs k (run_observed rt envs m1))"
      "alerts_for k T (snd (snd (run_ticks rt envs m1))) \<le>
         entries_into T (state_last_closed_ts m1 k) (key_obs k (run_observed rt envs m1))"
      using Cons[of m1] by simp_all
    show ?thesis
      using t None a b
      by (simp add: Let_def alerts_for_append key_obs_append entries_into_append
            last_entry_append)
  next
    case (Some e)
    then show ?thesis using t a by simp
  qed
qed

lemma entries_into_sorted_from:
  "sorted (u # xs) \<Longrightarrow> T \<le> u \<Longrightarrow> entries_into T (Some u) xs = 0"
proof (induction xs arbitrary: u)
  case Nil
  then show ?case by simp
next
  case (Cons x xs)
  have "u \<le> x" "sorted (x # xs)" using Cons.prems(1) by simp_all
  then show ?case using Cons.IH[of x] Cons.prems(2) by auto
qed

lemma entries_into_sorted: "sorted xs \<Longrightarrow> entries_into T prev xs \<le> 1"
proof (induction xs arbitrary: prev)
  case Nil
  then show ?case by simp
next
  case (Cons x xs)
  show ?case
  proof (cases "x = T \<and> prev \<noteq> Some T")
    case True
    have "entries_into T (Some x) xs = 0"
      using entries_into_sorted_from[of x xs T] Cons.prems True by simp
    then show ?thesis using True by simp
  next
    case False
    have "sorted xs" using Cons.prems by simp
    then have "entries_into T (Some x) xs \<le> 1" by (rule Cons.IH)
    then show ?thesis using False by auto
  qed
qed


lemma process_watcher_exact:
  assumes "watcher_target rt we w = Inr (Some (inst_id, bar))"
    "fetched rt (w_candles we) = Inr cs" "3 \<le> length cs"
  shows "fst (process_watcher rt we tok chat ssl st w) = st((inst_id, bar) \<mapsto> k_ts (cs ! 0))"
    and "alerts_for k T (snd (process_watcher rt we tok chat ssl st w)) =
           (if st (inst_id, bar) \<noteq> Some (k_ts (cs ! 0))
               \<and> pattern_signal [cs ! 2, cs ! 1, cs ! 0] \<noteq> None
               \<and> (inst_id, bar) = k \<and> k_ts (cs ! 0) = T
            then 1 else 0)"
proof -
  obtain y tr where f: "fetch_closed_candles rt (w_candles we) inst_id bar 10 ssl = (y, tr)"
    by (cases "fetch_closed_candles rt (w_candles we) inst_id bar 10 ssl")
  have y: "y = Inr cs"
    using fetch_result_fetched[of rt "w_candles we" inst_id bar 10 ssl] f assms(2) by simp
  have tr: "alerts_for k T tr = 0"
    using fetch_no_alert[of k T rt "w_candles we" inst_id bar 10 ssl] f by simp
  show "fst (process_watcher rt we tok chat ssl st w) = st((inst_id, bar) \<mapsto> k_ts (cs ! 0))"
    using assms f y watcher_signal_state[of rt we tok chat ssl st inst_id bar cs]
    by (simp add: process_watcher_def watcher_body_def Let_def)
  show "alerts_for k T (snd (process_watcher rt we tok chat ssl st w)) =
           (if st (inst_id, bar) \<noteq> Some (k_ts (cs ! 0))
               \<and> pattern_signal [cs ! 2, cs ! 1, cs ! 0] \<noteq> None
               \<and> (inst_id, bar) = k \<and> k_ts (cs ! 0) = T
            then 1 else 0)"
    using assms f y tr watcher_signal_alerts[of k T rt we tok chat ssl st inst_id bar cs]
    by (simp add: process_watcher_def watcher_body_def Let_def alerts_for_append)
qed

text \<open>
  C1, as amended. A watcher that reads the timestamp already recorded for its key does
  nothing: no pattern is evaluated, nothing is sent or logged, the state is unchanged.
  Otherwise the timestamp is recorded whatever the notifier answers, since line 300
  comes before the send. One pass over a watcher sends at most one alert for a key and
  a timestamp \<open>T\<close>, and only when the entry of the key changes to \<open>T\<close>. Over a run, the
  alerts for the key and \<open>T\<close> are at most as many as the changes of the entry to \<open>T\<close>;
  so there is at most one when the timestamps read for the key never decrease.
\<close>

theorem alert_once_per_entry:
  "(3 \<le> length cs \<and> st (inst_id, bar) = Some (k_ts (cs ! 0)) \<longrightarrow>
      watcher_signal rt we tok chat ssl st inst_id bar cs = (st, []))
   \<and> (3 \<le> length cs \<longrightarrow>
      fst (watcher_signal rt we tok chat ssl st inst_id bar cs) (inst_id, bar)
        = Some (k_ts (cs ! 0)))
   \<and> alerts_for k T (snd (process_watcher rt we tok chat ssl st w)) \<le> 1
   \<and> (alerts_for k T (snd (process_watcher rt we tok chat ssl st w)) = 1 \<longrightarrow>
      st k \<noteq> Some T \<and> fst (process_watcher rt we tok chat ssl st w) k = Some T)
   \<and> alerts_for k T (snd (snd (run_ticks rt envs m))) \<le>
       entries_into T (state_last_closed_ts m k) (key_obs k (run_observed rt envs m))
   \<and> (sorted (key_obs k (run_observed rt envs m)) \<longrightarrow>
       alerts_for k T (snd (snd (run_ticks rt envs m))) \<le> 1)"
proof -
  have 1: "watcher_signal rt we tok chat ssl st inst_id bar cs = (st, [])"
    if "3 \<le> length cs" "st (inst_id, bar) = Some (k_ts (cs ! 0))"
    using that by (rule watcher_signal_dedup)
  have 2: "fst (watcher_signal rt we tok chat ssl st inst_id bar cs) (inst_id, bar)
        = Some (k_ts (cs ! 0))" if "3 \<le> length cs"
    using that by (simp add: watcher_signal_state)
  have 3: "alerts_for k T (snd (process_watcher rt we tok chat ssl st w)) \<le> 1"
    using process_watcher_observed[of rt we tok chat ssl st w k T]
    by (auto split: option.splits if_splits)
  have 4: "st k \<noteq> Some T \<and> fst (process_watcher rt we tok chat ssl st w) k = Some T"
    if "alerts_for k T (snd (process_watcher rt we tok chat ssl st w)) = 1"
    using that process_watcher_observed[of rt we tok chat ssl st w k T]
    by (auto split: option.splits if_splits)
  have 5: "alerts_for k T (snd (snd (run_ticks rt envs m))) \<le>
       entries_into T (state_last_closed_ts m k) (key_obs k (run_observed rt envs m))"
    using run_ticks_entries[of rt envs m k T] by simp
  have 6: "alerts_for k T (snd (snd (run_ticks rt envs m))) \<le> 1"
    if "sorted (key_obs k (run_observed rt envs m))"
    using 5 entries_into_sorted[OF that, of T "state_last_closed_ts m k"] by linarith
  show ?thesis using 1 2 3 4 5 6 by blast
qed

subsection \<open>Sample runs\<close>

lemmas eval_target = watcher_target_def andthen_def as_str_def lit_def now_in_windows_def

lemma target_btc:
  "watcher_target rt0 (wenv_of reply tg) watcher_btc = Inr (Some key_btc)"
  by (simp add: eval_target watcher_btc_def eval_pair normalize_bar_def bar_mapping_def
        py_lower_def ascii_lower_def key_btc_def)

lemma fetched_a:
  "fetched rt0 (okx_reply rows_a)
     = Inr [candle_at 3000 90 98, candle_at 2000 95 90, candle_at 1000 100 95]"
  unfolding fetched_def by code_simp

lemma fetched_c:
  "fetched rt0 (okx_reply rows_c)
     = Inr [candle_at 4000 98 99, candle_at 3000 90 98, candle_at 2000 95 90]"
  unfolding fetched_def by code_simp

lemmas eval_candles = pattern_signal_def candle_at_def sample_candle_def classify_candle_def
  kinds_distinct

lemma step_a:
  "fst (process_watcher rt0 (wenv_of (okx_reply rows_a) tg) tok chat ssl st watcher_btc)
     = st(key_btc \<mapsto> 3000)"
  "alerts_for key_btc 3000
     (snd (process_watcher rt0 (wenv_of (okx_reply rows_a) tg) tok chat ssl st watcher_btc))
     = (if st key_btc \<noteq> Some 3000 then 1 else 0)"
  using process_watcher_exact(1)[of rt0 "wenv_of (okx_reply rows_a) tg" watcher_btc
          "lit ''BTC-USDT-SWAP''" "lit ''1H''"
          "[candle_at 3000 90 98, candle_at 2000 95 90, candle_at 1000 100 95]"
          tok chat ssl st]
        process_watcher_exact(2)[of rt0 "wenv_of (okx_reply rows_a) tg" watcher_btc
          "lit ''BTC-USDT-SWAP''" "lit ''1H''"
          "[candle_at 3000 90 98, candle_at 2000 95 90, candle_at 1000 100 95]"
          key_btc 3000 tok chat ssl st]
        target_btc[of "okx_reply rows_a" tg] fetched_a
  by (simp_all add: key_btc_def wenv_of_def eval_candles)

lemma step_c:
  "fst (process_watcher rt0 (wenv_of (okx_reply rows_c) tg) tok chat ssl st watcher_btc)
     = st(key_btc \<mapsto> 4000)"
  "alerts_for key_btc 3000
     (snd (process_watcher rt0 (wenv_of (okx_reply rows_c) tg) tok chat ssl st watcher_btc)) = 0"
  using process_watcher_exact(1)[of rt0 "wenv_of (okx_reply rows_c) tg" watcher_btc
          "lit ''BTC-USDT-SWAP''" "lit ''1H''"
          "[candle_at 4000 98 99, candle_at 3000 90 98, candle_at 2000 95 90]"
          tok chat ssl st]
        process_watcher_exact(2)[of rt0 "wenv_of (okx_reply rows_c) tg" watcher_btc
          "lit ''BTC-USDT-SWAP''" "lit ''1H''"
          "[candle_at 4000 98 99, candle_at 3000 90 98, candle_at 2000 95 90]"
          key_btc 3000 tok chat ssl st]
        target_btc[of "okx_reply rows_c" tg] fetched_c
  by (simp_all add: key_btc_def wenv_of_def eval_candles)

lemma tick_btc:
  "tick rt0 (tenv_of (Inr 1) f we) (mon_a\<lparr>state_last_closed_ts := st\<rparr>) =
     (None,
      mon_a\<lparr>state_last_closed_ts :=
               fst (process_watcher rt0 we (JStr (lit ''T'')) (lit ''42'') True st watcher_btc)\<rparr>,
      snd (process_watcher rt0 we (JStr (lit ''T'')) (lit ''42'') True st watcher_btc) @ [Sleep 5])"
  by (simp add: tick_def reload_check_def tenv_of_def mon_a_def now_in_windows_def Let_def
        py_sleep_def)


lemma observed_a: "observed rt0 (wenv_of (okx_reply rows_a) tg) watcher_btc = Some (key_btc, 3000)"
proof -
  have c: "w_candles (wenv_of (okx_reply rows_a) tg) = okx_reply rows_a"
    by (simp add: wenv_of_def)
  show ?thesis
    by (simp add: observed_def target_btc c fetched_a candle_at_def)
qed

lemma tick_observed_btc:
  "tick_observed rt0 (tenv_of (Inr 1) f we) (mon_a\<lparr>state_last_closed_ts := st\<rparr>) =
     (case observed rt0 we watcher_btc of None \<Rightarrow> [] | Some x \<Rightarrow> [x])"
  by (simp add: tick_observed_def reload_check_def tenv_of_def mon_a_def now_in_windows_def
        Let_def)

lemma mon_a_fresh: "mon_a = mon_a\<lparr>state_last_closed_ts := Map.empty\<rparr>"
  by (simp add: mon_a_def)

lemma alerts_for_Cons:
  "alerts_for k T (e # tr) = (if is_alert k T e then 1 else 0) + alerts_for k T tr"
  by (simp add: alerts_for_def)

lemma alerts_for_Nil: "alerts_for k T [] = 0"
  by (simp add: alerts_for_def)

theorem alert_once_per_entry_witness:
  "sorted (key_obs key_btc (run_observed rt0 [turn_a_down, turn_a] mon_a))
   \<and> alerts_for key_btc 3000 (snd (snd (run_ticks rt0 [turn_a_down, turn_a] mon_a))) \<le> 1
   \<and> watcher_signal rt0 (wenv_of (okx_reply rows_a) tg_down) (JStr (lit ''T'')) (lit ''42'') True
        (Map.empty(key_btc \<mapsto> 3000)) (lit ''BTC-USDT-SWAP'') (lit ''1H'')
        [candle_at 3000 90 98, candle_at 2000 95 90, candle_at 1000 100 95]
      = (Map.empty(key_btc \<mapsto> 3000), [])
   \<and> fst (watcher_signal rt0 (wenv_of (okx_reply rows_a) tg_down) (JStr (lit ''T'')) (lit ''42'')
        True Map.empty (lit ''BTC-USDT-SWAP'') (lit ''1H'')
        [candle_at 3000 90 98, candle_at 2000 95 90, candle_at 1000 100 95])
        (lit ''BTC-USDT-SWAP'', lit ''1H'') = Some 3000
   \<and> alerts_for key_btc 3000
        (snd (process_watcher rt0 (wenv_of (okx_reply rows_a) tg_down) (JStr (lit ''T''))
                (lit ''42'') True Map.empty watcher_btc)) = 1
   \<and> fst (process_watcher rt0 (wenv_of (okx_reply rows_a) tg_down) (JStr (lit ''T''))
             (lit ''42'') True Map.empty watcher_btc) key_btc = Some 3000"
proof -
  let ?cs = "[candle_at 3000 90 98, candle_at 2000 95 90, candle_at 1000 100 95]"
  let ?we = "wenv_of (okx_reply rows_a) tg_down"
  have q: "alerts_for key_btc 3000
        (snd (process_watcher rt0 ?we (JStr (lit ''T'')) (lit ''42'') True Map.empty watcher_btc))
        = 1"
    by (simp add: step_a(2))
  have o: "run_observed rt0 [turn_a_down, turn_a] (mon_a\<lparr>state_last_closed_ts := Map.empty\<rparr>)
             = [(key_btc, 3000), (key_btc, 3000)]"
    by (simp add: turn_a_def turn_a_down_def tick_btc tick_observed_btc observed_a step_a)
  have s: "sorted (key_obs key_btc (run_observed rt0 [turn_a_down, turn_a] mon_a))"
    using o mon_a_fresh by (simp add: key_obs_def)
  have l: "3 \<le> length ?cs" by simp
  have k: "(Map.empty(key_btc \<mapsto> 3000)) (lit ''BTC-USDT-SWAP'', lit ''1H'') = Some (k_ts (?cs ! 0))"
    by (simp add: key_btc_def candle_at_def)
  have t: "k_ts (?cs ! 0) = 3000" by (simp add: candle_at_def)
  show ?thesis
    using s l k t q
      alert_once_per_entry[of ?cs "Map.empty(key_btc \<mapsto> 3000)" "lit ''BTC-USDT-SWAP''"
        "lit ''1H''" rt0 ?we "JStr (lit ''T'')" "lit ''42''" True key_btc 3000 watcher_btc
        "[turn_a_down, turn_a]" mon_a]
      alert_once_per_entry[of ?cs Map.empty "lit ''BTC-USDT-SWAP''"
        "lit ''1H''" rt0 ?we "JStr (lit ''T'')" "lit ''42''" True key_btc 3000 watcher_btc
        "[turn_a_down, turn_a]" mon_a]
    by simp
qed

text \<open>
  C1 as stated fails: the exchange answers with newest closed timestamp 3000, then 4000,
  then 3000 again. The dedup state keeps only the last timestamp of a key, so the third
  turn sends a second alert for the same key and timestamp.
\<close>

theorem alert_repeats_after_other_timestamp:
  "alerts_for key_btc 3000 (snd (snd (run_ticks rt0 [turn_a, turn_c, turn_a] mon_a))) = 2"
proof -
  have "alerts_for key_btc 3000
          (snd (snd (run_ticks rt0 [turn_a, turn_c, turn_a]
                      (mon_a\<lparr>state_last_closed_ts := Map.empty\<rparr>)))) = 2"
    by (simp add: turn_a_def turn_c_def tick_btc step_a step_c alerts_for_append Let_def
          alerts_for_Cons alerts_for_Nil)
  then show ?thesis using mon_a_fresh by simp
qed

section \<open>Per-watcher error containment\<close>

lemma watchers_loop_append:
  "watchers_loop rt envs i tok chat ssl st (ws1 @ ws2) =
     (fst (watchers_loop rt envs (i + length ws1) tok chat ssl
             (fst (watchers_loop rt envs i tok chat ssl st ws1)) ws2),
      snd (watchers_loop rt envs i tok chat ssl st ws1)
      @ snd (watchers_loop rt envs (i + length ws1) tok chat ssl
               (fst (watchers_loop rt envs i tok chat ssl st ws1)) ws2))"
  by (induction ws1 arbitrary: i st) (simp_all add: Let_def)

lemma watcher_body_raise_state:
  "watcher_body rt we tok chat ssl st w = (Some e, st', tr) \<Longrightarrow> st' = st"
  by (auto simp: watcher_body_def Let_def split: sum.splits option.splits prod.splits)

lemma tick_inside:
  assumes "now_in_windows rt (global_windows (fst (reload_check rt env m))) (t_clock env) = Inr True"
    "py_iter (watchers (fst (reload_check rt env m))) = Inr ws"
  shows "fst (tick rt env m) = py_sleep (poll_interval (fst (reload_check rt env m)))"
    and "snd (snd (tick rt env m)) =
           snd (reload_check rt env m)
           @ snd (watchers_loop rt (t_watch env) 0 (token (fst (reload_check rt env m)))
                 (chat_id (fst (reload_check rt env m))) (ssl_verify (fst (reload_check rt env m)))
                 (state_last_closed_ts (fst (reload_check rt env m))) ws)
           @ [Sleep (poll_interval (fst (reload_check rt env m)))]"
  using assms by (simp_all add: tick_def Let_def)

text \<open>
  C5. When the body of the \<open>try\<close> raises for a watcher, the exception is caught and
  logged as an error after the events the watcher had produced, the dedup state is as
  it was before the watcher, and the \<open>for\<close> loop goes on with the watchers that follow
  it. No exception of a watcher leaves the turn: inside the global windows, a turn
  ends with the sleep of line 324 after the events of all its watchers, and the only
  exception it can end with is the one of that sleep.
\<close>

theorem watcher_exception_contained:
  "(watcher_body rt (envs (i + length ws1)) tok chat ssl
       (fst (watchers_loop rt envs i tok chat ssl st ws1)) w = (Some e, st', tr) \<longrightarrow>
      st' = fst (watchers_loop rt envs i tok chat ssl st ws1)
      \<and> process_watcher rt (envs (i + length ws1)) tok chat ssl st' w
          = (st', tr @ [Log ERROR (WatcherFailed w e)])
      \<and> watchers_loop rt envs i tok chat ssl st (ws1 @ w # ws2) =
          (fst (watchers_loop rt envs (Suc (i + length ws1)) tok chat ssl st' ws2),
           snd (watchers_loop rt envs i tok chat ssl st ws1)
           @ tr @ [Log ERROR (WatcherFailed w e)]
           @ snd (watchers_loop rt envs (Suc (i + length ws1)) tok chat ssl st' ws2)))
   \<and> (now_in_windows rt (global_windows (fst (reload_check rt env m))) (t_clock env) = Inr True
        \<and> py_iter (watchers (fst (reload_check rt env m))) = Inr ws \<longrightarrow>
      fst (tick rt env m) = py_sleep (poll_interval (fst (reload_check rt env m)))
      \<and> snd (snd (tick rt env m)) =
           snd (reload_check rt env m)
           @ snd (watchers_loop rt (t_watch env) 0 (token (fst (reload_check rt env m)))
                 (chat_id (fst (reload_check rt env m))) (ssl_verify (fst (reload_check rt env m)))
                 (state_last_closed_ts (fst (reload_check rt env m))) ws)
           @ [Sleep (poll_interval (fst (reload_check rt env m)))])"
proof -
  let ?st1 = "fst (watchers_loop rt envs i tok chat ssl st ws1)"
  have 1: "st' = ?st1
      \<and> process_watcher rt (envs (i + length ws1)) tok chat ssl st' w
          = (st', tr @ [Log ERROR (WatcherFailed w e)])
      \<and> watchers_loop rt envs i tok chat ssl st (ws1 @ w # ws2) =
          (fst (watchers_loop rt envs (Suc (i + length ws1)) tok chat ssl st' ws2),
           snd (watchers_loop rt envs i tok chat ssl st ws1)
           @ tr @ [Log ERROR (WatcherFailed w e)]
           @ snd (watchers_loop rt envs (Suc (i + length ws1)) tok chat ssl st' ws2))"
    if h: "watcher_body rt (envs (i + length ws1)) tok chat ssl ?st1 w = (Some e, st', tr)"
  proof -
    have s: "st' = ?st1" using watcher_body_raise_state[OF h] .
    have p: "process_watcher rt (envs (i + length ws1)) tok chat ssl ?st1 w
               = (?st1, tr @ [Log ERROR (WatcherFailed w e)])"
      using h s by (simp add: process_watcher_def)
    have l: "watchers_loop rt envs i tok chat ssl st (ws1 @ w # ws2) =
          (fst (watchers_loop rt envs (Suc (i + length ws1)) tok chat ssl ?st1 ws2),
           snd (watchers_loop rt envs i tok chat ssl st ws1)
           @ tr @ [Log ERROR (WatcherFailed w e)]
           @ snd (watchers_loop rt envs (Suc (i + length ws1)) tok chat ssl ?st1 ws2))"
      unfolding watchers_loop_append[of rt envs i tok chat ssl st ws1 "w # ws2"]
      using p by (simp add: Let_def)
    show ?thesis using s p l by simp
  qed
  have 2: "fst (tick rt env m) = py_sleep (poll_interval (fst (reload_check rt env m)))
      \<and> snd (snd (tick rt env m)) =
           snd (reload_check rt env m)
           @ snd (watchers_loop rt (t_watch env) 0 (token (fst (reload_check rt env m)))
                 (chat_id (fst (reload_check rt env m))) (ssl_verify (fst (reload_check rt env m)))
                 (state_last_closed_ts (fst (reload_check rt env m))) ws)
           @ [Sleep (poll_interval (fst (reload_check rt env m)))]"
    if h: "now_in_windows rt (global_windows (fst (reload_check rt env m))) (t_clock env) = Inr True"
       "py_iter (watchers (fst (reload_check rt env m))) = Inr ws"
    using tick_inside[OF h] by simp
  show ?thesis using 1 2 by blast
qed

theorem watcher_exception_contained_witness:
  "watcher_body rt0 (wenv_of (okx_reply rows_a) tg_ok) (JStr (lit ''T'')) (lit ''42'') True
     Map.empty watcher_xyz = (Some ValueError, Map.empty, [])
   \<and> snd (watchers_loop rt0 (\<lambda>i. wenv_of (okx_reply rows_a) tg_ok) 0 (JStr (lit ''T''))
            (lit ''42'') True Map.empty [watcher_xyz, watcher_btc])
      = Log ERROR (WatcherFailed watcher_xyz ValueError)
        # snd (watchers_loop rt0 (\<lambda>i. wenv_of (okx_reply rows_a) tg_ok) 1 (JStr (lit ''T''))
                 (lit ''42'') True Map.empty [watcher_btc])
   \<and> alerts_for key_btc 3000
        (snd (watchers_loop rt0 (\<lambda>i. wenv_of (okx_reply rows_a) tg_ok) 1 (JStr (lit ''T''))
                 (lit ''42'') True Map.empty [watcher_btc])) = 1
   \<and> fst (tick rt0 turn_a (mon_a\<lparr>watchers := JArr [watcher_xyz, watcher_btc]\<rparr>)) = None"
proof -
  let ?we = "wenv_of (okx_reply rows_a) tg_ok"
  let ?m = "mon_a\<lparr>watchers := JArr [watcher_xyz, watcher_btc]\<rparr>"
  have r: "reload_check rt0 turn_a ?m = (?m, [])"
    by (simp add: reload_check_def turn_a_def tenv_of_def mon_a_def)
  have g: "now_in_windows rt0 (global_windows (fst (reload_check rt0 turn_a ?m))) (t_clock turn_a)
             = Inr True"
    unfolding r by (simp add: mon_a_def now_in_windows_def)
  have i: "py_iter (watchers (fst (reload_check rt0 turn_a ?m))) = Inr [watcher_xyz, watcher_btc]"
    unfolding r by simp
  have p: "py_sleep (poll_interval (fst (reload_check rt0 turn_a ?m))) = None"
    unfolding r by (simp add: mon_a_def py_sleep_def)
  have e: "fst (tick rt0 turn_a ?m) = None"
    using
      watcher_exception_contained[where rt = rt0 and env = turn_a and m = "?m"
        and ws = "[watcher_xyz, watcher_btc]", THEN conjunct2, THEN mp, OF conjI[OF g i],
        THEN conjunct1]
      p
    by simp
  have t: "watcher_target rt0 ?we watcher_xyz = Inl ValueError"
    by (simp add: eval_target watcher_xyz_def eval_pair)
  have b: "watcher_body rt0 ?we (JStr (lit ''T'')) (lit ''42'') True Map.empty watcher_xyz
             = (Some ValueError, Map.empty, [])"
    by (simp add: watcher_body_def t)
  have c: "alerts_for key_btc 3000
        (snd (watchers_loop rt0 (\<lambda>i. ?we) 1 (JStr (lit ''T''))
                 (lit ''42'') True Map.empty [watcher_btc])) = 1"
    by (simp add: Let_def step_a alerts_for_append alerts_for_Nil)
  have h: "watcher_body rt0 ((\<lambda>i. ?we) (0 + length [])) (JStr (lit ''T'')) (lit ''42'') True
             (fst (watchers_loop rt0 (\<lambda>i. ?we) 0 (JStr (lit ''T'')) (lit ''42'') True
                     Map.empty [])) watcher_xyz = (Some ValueError, Map.empty, [])"
    using b by simp
  have d: "snd (watchers_loop rt0 (\<lambda>i. ?we) 0 (JStr (lit ''T''))
            (lit ''42'') True Map.empty [watcher_xyz, watcher_btc])
      = Log ERROR (WatcherFailed watcher_xyz ValueError)
        # snd (watchers_loop rt0 (\<lambda>i. ?we) 1 (JStr (lit ''T''))
                 (lit ''42'') True Map.empty [watcher_btc])"
    using
      watcher_exception_contained[of rt0 "\<lambda>i. ?we" 0 "[]" "JStr (lit ''T'')" "lit ''42''" True
        Map.empty watcher_xyz ValueError Map.empty "[]" "[watcher_btc]",
        THEN conjunct1, THEN mp, OF h, THEN conjunct2, THEN conjunct2]
    by (simp del: watchers_loop.simps(2))
  show ?thesis using b c d e by blast
qed

end
